theory Spec2Isabelle
  imports Main "HOL-Library.Sublist"
begin

section \<open>Strings\<close>

text \<open>
  The program is TypeScript. A JavaScript string is a sequence of UTF-16 code units, and
  every kana of the tables is one code unit of the Basic Multilingual Plane, so a string
  is modelled as the list of its code units. \<open>ascii\<close> embeds an ASCII literal.
  Kana are written by code unit: U+3063 is HIRAGANA LETTER SMALL TU (the sokuon), U+3093
  is HIRAGANA LETTER N, U+3083, U+3085 and U+3087 are the small YA, YU and YO.
\<close>

type_synonym jschar = nat
type_synonym jsstring = "jschar list"

definition ascii :: "string \<Rightarrow> jsstring" where
  "ascii s = map of_char s"

definition startsWith :: "jsstring \<Rightarrow> jsstring \<Rightarrow> bool" where
  \<comment> \<open>\<open>s.startsWith(p)\<close>\<close>
  "startsWith s p = prefix p s"

definition SMALL_TSU :: jschar where
  "SMALL_TSU = 0x3063"

definition KANA_N :: jschar where
  "KANA_N = 0x3093"

definition charAt0 :: "jsstring \<Rightarrow> jsstring option" where
  \<comment> \<open>\<open>r[0]\<close>: the one-unit string at index 0, \<open>undefined\<close> (None) on the empty string\<close>
  "charAt0 r = (case r of [] \<Rightarrow> None | c # _ \<Rightarrow> Some [c])"

definition str_of_undefined :: "jsstring option \<Rightarrow> jsstring" where
  \<comment> \<open>string conversion of a value that may be \<open>undefined\<close>\<close>
  "str_of_undefined v = (case v of None \<Rightarrow> ascii ''undefined'' | Some s \<Rightarrow> s)"

section \<open>InputHandler\<close>

text \<open>
  \<open>KANA_ROMAJI_MAP\<close> and \<open>COMBO_MAP\<close> are object literals with distinct keys; a lookup
  with a key that is absent yields \<open>undefined\<close> (None). The keys looked up are one or
  two code units long, or the word \<open>undefined\<close>, so no lookup reaches a property
  inherited from \<open>Object.prototype\<close>. The map has the ASCII key \<open>ru\<close> where the kana
  U+308B would be expected; the entry is kept as written.
\<close>

definition KANA_ROMAJI_MAP_entries :: "(jsstring \<times> jsstring list) list" where
  "KANA_ROMAJI_MAP_entries = [
    ([0x3042], [ascii ''a'']),
    ([0x3044], [ascii ''i'']),
    ([0x3046], [ascii ''u'']),
    ([0x3048], [ascii ''e'']),
    ([0x304A], [ascii ''o'']),
    ([0x304B], [ascii ''ka'', ascii ''ca'']),
    ([0x304D], [ascii ''ki'']),
    ([0x304F], [ascii ''ku'', ascii ''cu'', ascii ''qu'']),
    ([0x3051], [ascii ''ke'']),
    ([0x3053], [ascii ''ko'', ascii ''co'']),
    ([0x3055], [ascii ''sa'']),
    ([0x3057], [ascii ''shi'', ascii ''si'', ascii ''ci'']),
    ([0x3059], [ascii ''su'']),
    ([0x305B], [ascii ''se'', ascii ''ce'']),
    ([0x305D], [ascii ''so'']),
    ([0x305F], [ascii ''ta'']),
    ([0x3061], [ascii ''chi'', ascii ''ti'']),
    ([0x3064], [ascii ''tsu'', ascii ''tu'']),
    ([0x3066], [ascii ''te'']),
    ([0x3068], [ascii ''to'']),
    ([0x306A], [ascii ''na'']),
    ([0x306B], [ascii ''ni'']),
    ([0x306C], [ascii ''nu'']),
    ([0x306D], [ascii ''ne'']),
    ([0x306E], [ascii ''no'']),
    ([0x306F], [ascii ''ha'']),
    ([0x3072], [ascii ''hi'']),
    ([0x3075], [ascii ''fu'', ascii ''hu'']),
    ([0x3078], [ascii ''he'']),
    ([0x307B], [ascii ''ho'']),
    ([0x307E], [ascii ''ma'']),
    ([0x307F], [ascii ''mi'']),
    ([0x3080], [ascii ''mu'']),
    ([0x3081], [ascii ''me'']),
    ([0x3082], [ascii ''mo'']),
    ([0x3084], [ascii ''ya'']),
    ([0x3086], [ascii ''yu'']),
    ([0x3088], [ascii ''yo'']),
    ([0x3089], [ascii ''ra'']),
    ([0x308A], [ascii ''ri'']),
    ([0x0072, 0x0075], [ascii ''ru'']),
    ([0x308C], [ascii ''re'']),
    ([0x308D], [ascii ''ro'']),
    ([0x308F], [ascii ''wa'']),
    ([0x3092], [ascii ''wo'']),
    ([0x3093], [ascii ''nn'', ascii ''xn'', ascii ''n'']),
    ([0x304C], [ascii ''ga'']),
    ([0x304E], [ascii ''gi'']),
    ([0x3050], [ascii ''gu'']),
    ([0x3052], [ascii ''ge'']),
    ([0x3054], [ascii ''go'']),
    ([0x3056], [ascii ''za'']),
    ([0x3058], [ascii ''ji'', ascii ''zi'']),
    ([0x305A], [ascii ''zu'']),
    ([0x305C], [ascii ''ze'']),
    ([0x305E], [ascii ''zo'']),
    ([0x3060], [ascii ''da'']),
    ([0x3062], [ascii ''ji'', ascii ''di'']),
    ([0x3065], [ascii ''zu'', ascii ''du'']),
    ([0x3067], [ascii ''de'']),
    ([0x3069], [ascii ''do'']),
    ([0x3070], [ascii ''ba'']),
    ([0x3073], [ascii ''bi'']),
    ([0x3076], [ascii ''bu'']),
    ([0x3079], [ascii ''be'']),
    ([0x307C], [ascii ''bo'']),
    ([0x3071], [ascii ''pa'']),
    ([0x3074], [ascii ''pi'']),
    ([0x3077], [ascii ''pu'']),
    ([0x307A], [ascii ''pe'']),
    ([0x307D], [ascii ''po'']),
    ([0x3083], [ascii ''xy'']),
    ([0x3085], [ascii ''xyu'']),
    ([0x3087], [ascii ''xyo'']),
    ([0x3063], [ascii ''xtu'', ascii ''xtsu'']),
    ([0x30FC], [ascii ''-''])]"

definition KANA_ROMAJI_MAP :: "jsstring \<Rightarrow> jsstring list option" where
  "KANA_ROMAJI_MAP = map_of KANA_ROMAJI_MAP_entries"

definition COMBO_MAP_entries :: "(jsstring \<times> jsstring list) list" where
  "COMBO_MAP_entries = [
    ([0x304D, 0x3083], [ascii ''kya'']),
    ([0x304D, 0x3085], [ascii ''kyu'']),
    ([0x304D, 0x3087], [ascii ''kyo'']),
    ([0x3057, 0x3083], [ascii ''sha'', ascii ''sya'']),
    ([0x3057, 0x3085], [ascii ''shu'', ascii ''syu'']),
    ([0x3057, 0x3087], [ascii ''sho'', ascii ''syo'']),
    ([0x3061, 0x3083], [ascii ''cha'', ascii ''tya'']),
    ([0x3061, 0x3085], [ascii ''chu'', ascii ''tyu'']),
    ([0x3061, 0x3087], [ascii ''cho'', ascii ''tyo'']),
    ([0x306B, 0x3083], [ascii ''nya'']),
    ([0x306B, 0x3085], [ascii ''nyu'']),
    ([0x306B, 0x3087], [ascii ''nyo'']),
    ([0x3072, 0x3083], [ascii ''hya'']),
    ([0x3072, 0x3085], [ascii ''hyu'']),
    ([0x3072, 0x3087], [ascii ''hyo'']),
    ([0x307F, 0x3083], [ascii ''mya'']),
    ([0x307F, 0x3085], [ascii ''myu'']),
    ([0x307F, 0x3087], [ascii ''myo'']),
    ([0x308A, 0x3083], [ascii ''rya'']),
    ([0x308A, 0x3085], [ascii ''ryu'']),
    ([0x308A, 0x3087], [ascii ''ryo'']),
    ([0x304E, 0x3083], [ascii ''gya'']),
    ([0x304E, 0x3085], [ascii ''gyu'']),
    ([0x304E, 0x3087], [ascii ''gyo'']),
    ([0x3058, 0x3083], [ascii ''ja'', ascii ''jya'', ascii ''zya'']),
    ([0x3058, 0x3085], [ascii ''ju'', ascii ''jyu'', ascii ''zyu'']),
    ([0x3058, 0x3087], [ascii ''jo'', ascii ''jyo'', ascii ''zyo'']),
    ([0x3073, 0x3083], [ascii ''bya'']),
    ([0x3073, 0x3085], [ascii ''byu'']),
    ([0x3073, 0x3087], [ascii ''byo'']),
    ([0x3074, 0x3083], [ascii ''pya'']),
    ([0x3074, 0x3085], [ascii ''pyu'']),
    ([0x3074, 0x3087], [ascii ''pyo''])]"

definition COMBO_MAP :: "jsstring \<Rightarrow> jsstring list option" where
  "COMBO_MAP = map_of COMBO_MAP_entries"

text \<open>
  The state of an \<open>InputHandler\<close>. The three callbacks \<open>onKanaTyped\<close>, \<open>onInputUpdate\<close>
  and \<open>onComplete\<close> are modelled at their initial values, which do nothing. The two
  counters are JavaScript numbers that are only ever incremented from 0; they are exact
  integers below \<open>2 ^ 53\<close> and are modelled as natural numbers.
\<close>

record InputHandler =
  targetKana :: jsstring
  currentInput :: jsstring
  currentIndex :: nat
  totalTyped :: nat
  totalMisses :: nat

definition newInputHandler :: InputHandler where
  "newInputHandler =
     \<lparr>targetKana = [], currentInput = [], currentIndex = 0, totalTyped = 0, totalMisses = 0\<rparr>"

definition setTarget :: "InputHandler \<Rightarrow> jsstring \<Rightarrow> InputHandler" where
  "setTarget s kana = s\<lparr>targetKana := kana, currentIndex := 0, currentInput := []\<rparr>"

definition charAt :: "jsstring \<Rightarrow> nat \<Rightarrow> jschar option" where
  \<comment> \<open>\<open>s[i]\<close>: \<open>undefined\<close> (None) out of range\<close>
  "charAt s i = (if i < length s then Some (s ! i) else None)"

definition smalls :: "jsstring list" where
  "smalls = [[0x3083], [0x3085], [0x3087],
     ascii ''aa'', ascii ''ee'', ascii ''ii'', ascii ''oo'', ascii ''uu'']"

definition isCombo :: "jschar option \<Rightarrow> jschar option \<Rightarrow> bool" where
  "isCombo c1 c2 = (case c2 of None \<Rightarrow> False | Some c \<Rightarrow> [c] \<in> set smalls)"

definition doubled :: "jsstring \<Rightarrow> jsstring" where
  \<comment> \<open>\<open>r[0] + r\<close>\<close>
  "doubled r = str_of_undefined (charAt0 r) @ r"

text \<open>
  \<open>getPossibleRomajis(index)\<close> reads the target at \<open>index\<close> and \<open>index + 1\<close> and
  calls itself at \<open>index + 1\<close>; \<open>possibleAt\<close> is that function on the rest of the
  target from \<open>index\<close> on. On the empty rest \<open>c1\<close> is \<open>undefined\<close>, no branch applies
  and the map has no key \<open>undefined\<close>.
\<close>

fun possibleAt :: "jsstring \<Rightarrow> jsstring list" where
  "possibleAt [] = [ascii ''?'']"
| "possibleAt (c1 # rest) =
     (if c1 = SMALL_TSU then
        (case rest of
           [] \<Rightarrow> [ascii ''xtu'', ascii ''xtsu'']
         | c2 # _ \<Rightarrow> map doubled (possibleAt rest) @ [ascii ''xtu'', ascii ''xtsu''])
      else if isCombo (Some c1) (charAt rest 0) then
        (case COMBO_MAP (c1 # take 1 rest) of
           Some rs \<Rightarrow> rs
         | None \<Rightarrow> [ascii ''?''])
      else
        (case KANA_ROMAJI_MAP [c1] of
           Some rs \<Rightarrow> rs
         | None \<Rightarrow> [ascii ''?'']))"

definition getPossibleRomajis :: "InputHandler \<Rightarrow> nat \<Rightarrow> jsstring list" where
  "getPossibleRomajis s index = possibleAt (drop index (targetKana s))"

definition advanceChar :: "InputHandler \<Rightarrow> InputHandler" where
  "advanceChar s =
     (let advanceCount =
            (if isCombo (charAt (targetKana s) (currentIndex s))
                  (charAt (targetKana s) (currentIndex s + 1))
             then 2 else 1)
      in s\<lparr>currentIndex := currentIndex s + advanceCount, currentInput := []\<rparr>)"

definition handleKey :: "InputHandler \<Rightarrow> jsstring \<Rightarrow> bool \<times> InputHandler" where
  "handleKey s key =
     (if currentIndex s \<ge> length (targetKana s) then (False, s)
      else if length key \<noteq> 1 then (False, s)
      else
        let possibleRomajis = getPossibleRomajis s (currentIndex s);
            nextInput = currentInput s @ key
        in if list_ex (\<lambda>r. startsWith r nextInput) possibleRomajis then
             let s1 = s\<lparr>currentInput := nextInput, totalTyped := totalTyped s + 1\<rparr>
             in (case find (\<lambda>r. r = currentInput s1) possibleRomajis of
                   Some exactMatch \<Rightarrow> (True, advanceChar s1)
                 | None \<Rightarrow> (True, s1))
           else (False, s\<lparr>totalMisses := totalMisses s + 1\<rparr>))"

definition getStats :: "InputHandler \<Rightarrow> nat \<times> nat" where
  \<comment> \<open>the pair \<open>(typed, misses)\<close>\<close>
  "getStats s = (totalTyped s, totalMisses s)"

text \<open>A sequence of key events, delivered in order; the results of the calls are collected.\<close>

fun handleKeys :: "InputHandler \<Rightarrow> jsstring list \<Rightarrow> bool list \<times> InputHandler" where
  "handleKeys s [] = ([], s)"
| "handleKeys s (k # ks) =
     (let (b, s1) = handleKey s k; (bs, s2) = handleKeys s1 ks in (b # bs, s2))"

section \<open>RomajiCore\<close>

text \<open>
  \<open>ROMAJI_TABLE\<close> is an object literal with distinct keys of one or two code units,
  and it is only looked up with keys of at most two code units. The last spelling of
  U+3093 is the letter n followed by an apostrophe.
\<close>

definition ROMAJI_TABLE_entries :: "(jsstring \<times> jsstring list) list" where
  "ROMAJI_TABLE_entries = [
    ([0x3042], [ascii ''a'']),
    ([0x3044], [ascii ''i'', ascii ''yi'']),
    ([0x3046], [ascii ''u'', ascii ''wu'', ascii ''whu'']),
    ([0x3048], [ascii ''e'']),
    ([0x304A], [ascii ''o'']),
    ([0x304B], [ascii ''ka'', ascii ''ca'']),
    ([0x304D], [ascii ''ki'']),
    ([0x304F], [ascii ''ku'', ascii ''cu'', ascii ''qu'']),
    ([0x3051], [ascii ''ke'']),
    ([0x3053], [ascii ''ko'', ascii ''co'']),
    ([0x3055], [ascii ''sa'']),
    ([0x3057], [ascii ''shi'', ascii ''si'', ascii ''ci'']),
    ([0x3059], [ascii ''su'']),
    ([0x305B], [ascii ''se'', ascii ''ce'']),
    ([0x305D], [ascii ''so'']),
    ([0x305F], [ascii ''ta'']),
    ([0x3061], [ascii ''chi'', ascii ''ti'']),
    ([0x3064], [ascii ''tsu'', ascii ''tu'']),
    ([0x3066], [ascii ''te'']),
    ([0x3068], [ascii ''to'']),
    ([0x306A], [ascii ''na'']),
    ([0x306B], [ascii ''ni'']),
    ([0x306C], [ascii ''nu'']),
    ([0x306D], [ascii ''ne'']),
    ([0x306E], [ascii ''no'']),
    ([0x306F], [ascii ''ha'']),
    ([0x3072], [ascii ''hi'']),
    ([0x3075], [ascii ''fu'', ascii ''hu'']),
    ([0x3078], [ascii ''he'']),
    ([0x307B], [ascii ''ho'']),
    ([0x307E], [ascii ''ma'']),
    ([0x307F], [ascii ''mi'']),
    ([0x3080], [ascii ''mu'']),
    ([0x3081], [ascii ''me'']),
    ([0x3082], [ascii ''mo'']),
    ([0x3084], [ascii ''ya'']),
    ([0x3086], [ascii ''yu'']),
    ([0x3088], [ascii ''yo'']),
    ([0x3089], [ascii ''ra'']),
    ([0x308A], [ascii ''ri'']),
    ([0x308B], [ascii ''ru'']),
    ([0x308C], [ascii ''re'']),
    ([0x308D], [ascii ''ro'']),
    ([0x308F], [ascii ''wa'']),
    ([0x3092], [ascii ''wo'']),
    ([0x3093], [ascii ''n'', ascii ''nn'', ascii [CHR 0x6E, CHR 0x27]]),
    ([0x304C], [ascii ''ga'']),
    ([0x304E], [ascii ''gi'']),
    ([0x3050], [ascii ''gu'']),
    ([0x3052], [ascii ''ge'']),
    ([0x3054], [ascii ''go'']),
    ([0x3056], [ascii ''za'']),
    ([0x3058], [ascii ''ji'', ascii ''zi'']),
    ([0x305A], [ascii ''zu'']),
    ([0x305C], [ascii ''ze'']),
    ([0x305E], [ascii ''zo'']),
    ([0x3060], [ascii ''da'']),
    ([0x3062], [ascii ''ji'', ascii ''di'']),
    ([0x3065], [ascii ''zu'', ascii ''du'']),
    ([0x3067], [ascii ''de'']),
    ([0x3069], [ascii ''do'']),
    ([0x3070], [ascii ''ba'']),
    ([0x3073], [ascii ''bi'']),
    ([0x3076], [ascii ''bu'']),
    ([0x3079], [ascii ''be'']),
    ([0x307C], [ascii ''bo'']),
    ([0x3071], [ascii ''pa'']),
    ([0x3074], [ascii ''pi'']),
    ([0x3077], [ascii ''pu'']),
    ([0x307A], [ascii ''pe'']),
    ([0x307D], [ascii ''po'']),
    ([0x3041], [ascii ''la'', ascii ''xa'']),
    ([0x3043], [ascii ''li'', ascii ''xi'']),
    ([0x3045], [ascii ''lu'', ascii ''xu'']),
    ([0x3047], [ascii ''le'', ascii ''xe'']),
    ([0x3049], [ascii ''lo'', ascii ''xo'']),
    ([0x3083], [ascii ''lya'', ascii ''xya'']),
    ([0x3085], [ascii ''lyu'', ascii ''xyu'']),
    ([0x3087], [ascii ''lyo'', ascii ''xyo'']),
    ([0x3063], [ascii ''ltu'', ascii ''xtu'', ascii ''ltsu'']),
    ([0x30FC], [ascii ''-'']),
    ([0x304D, 0x3083], [ascii ''kya'']),
    ([0x304D, 0x3085], [ascii ''kyu'']),
    ([0x304D, 0x3087], [ascii ''kyo'']),
    ([0x3057, 0x3083], [ascii ''sha'', ascii ''sya'']),
    ([0x3057, 0x3085], [ascii ''shu'', ascii ''syu'']),
    ([0x3057, 0x3087], [ascii ''sho'', ascii ''syo'']),
    ([0x3061, 0x3083], [ascii ''cha'', ascii ''cya'', ascii ''tya'']),
    ([0x3061, 0x3085], [ascii ''chu'', ascii ''cyu'', ascii ''tyu'']),
    ([0x3061, 0x3087], [ascii ''cho'', ascii ''cyo'', ascii ''tyo'']),
    ([0x306B, 0x3083], [ascii ''nya'']),
    ([0x306B, 0x3085], [ascii ''nyu'']),
    ([0x306B, 0x3087], [ascii ''nyo'']),
    ([0x3072, 0x3083], [ascii ''hya'']),
    ([0x3072, 0x3085], [ascii ''hyu'']),
    ([0x3072, 0x3087], [ascii ''hyo'']),
    ([0x307F, 0x3083], [ascii ''mya'']),
    ([0x307F, 0x3085], [ascii ''myu'']),
    ([0x307F, 0x3087], [ascii ''myo'']),
    ([0x308A, 0x3083], [ascii ''rya'']),
    ([0x308A, 0x3085], [ascii ''ryu'']),
    ([0x308A, 0x3087], [ascii ''ryo'']),
    ([0x304E, 0x3083], [ascii ''gya'']),
    ([0x304E, 0x3085], [ascii ''gyu'']),
    ([0x304E, 0x3087], [ascii ''gyo'']),
    ([0x3058, 0x3083], [ascii ''ja'', ascii ''jya'', ascii ''zya'']),
    ([0x3058, 0x3085], [ascii ''ju'', ascii ''jyu'', ascii ''zyu'']),
    ([0x3058, 0x3087], [ascii ''jo'', ascii ''jyo'', ascii ''zyo'']),
    ([0x3073, 0x3083], [ascii ''bya'']),
    ([0x3073, 0x3085], [ascii ''byu'']),
    ([0x3073, 0x3087], [ascii ''byo'']),
    ([0x3074, 0x3083], [ascii ''pya'']),
    ([0x3074, 0x3085], [ascii ''pyu'']),
    ([0x3074, 0x3087], [ascii ''pyo'']),
    ([0x3075, 0x3041], [ascii ''fa'']),
    ([0x3075, 0x3043], [ascii ''fi'']),
    ([0x3075, 0x3047], [ascii ''fe'']),
    ([0x3075, 0x3049], [ascii ''fo'']),
    ([0x3094], [ascii ''vu'']),
    ([0x3046, 0x3043], [ascii ''wi'']),
    ([0x3046, 0x3047], [ascii ''we'']),
    ([0x30F4], [ascii ''vu'']),
    ([0x3001], [ascii '','']),
    ([0x3002], [ascii ''.''])]"

definition ROMAJI_TABLE :: "jsstring \<Rightarrow> jsstring list option" where
  "ROMAJI_TABLE = map_of ROMAJI_TABLE_entries"

record RomajiCore =
  kanaText :: jsstring
  rc_currentIndex :: nat
  currentInputBuffer :: jsstring

definition newRomajiCore :: "jsstring \<Rightarrow> RomajiCore" where
  "newRomajiCore kana = \<lparr>kanaText = kana, rc_currentIndex = 0, currentInputBuffer = []\<rparr>"

definition isFinished :: "RomajiCore \<Rightarrow> bool" where
  "isFinished s = (rc_currentIndex s \<ge> length (kanaText s))"

definition getPossibleRomaji :: "jsstring \<Rightarrow> jsstring list" where
  "getPossibleRomaji kana = (case ROMAJI_TABLE kana of Some rs \<Rightarrow> rs | None \<Rightarrow> [])"

definition matchesAnything :: "jsstring \<Rightarrow> jsstring \<Rightarrow> bool" where
  "matchesAnything kana inp = list_ex (\<lambda>r. startsWith r inp) (getPossibleRomaji kana)"

definition matchesPrefix :: "jsstring \<Rightarrow> jsstring \<Rightarrow> bool" where
  "matchesPrefix kana key = list_ex (\<lambda>r. startsWith r key) (getPossibleRomaji kana)"

definition isComplete :: "jsstring \<Rightarrow> jsstring \<Rightarrow> bool" where
  "isComplete kana inp = (inp \<in> set (getPossibleRomaji kana))"

definition getConsonants :: "jsstring \<Rightarrow> jsstring option list" where
  \<comment> \<open>the first unit of every spelling, each once, in the order of first occurrence\<close>
  "getConsonants kana = rev (remdups (rev (map charAt0 (getPossibleRomaji kana))))"

definition vowels_y_n :: "jsstring list" where
  "vowels_y_n = [ascii ''a'', ascii ''i'', ascii ''u'', ascii ''e'', ascii ''o'',
     ascii ''y'', ascii ''n'']"

text \<open>
  \<open>checkMatch(text, input)\<close> returns \<open>null\<close> (None) or the pair
  \<open>(completedKanaCount, remainingBuffer)\<close>. The branches are in the order of the source:
  the two-unit compound; the sokuon followed by another unit (a first letter of the next
  unit, then the sokuon's own spellings); the one-unit entry; a complete spelling followed
  by left-over input; the sokuon consumed by the first key; the single n.
\<close>

definition checkMatch :: "jsstring \<Rightarrow> jsstring \<Rightarrow> (nat \<times> jsstring) option" where
  "checkMatch text inp =
     (if length text \<ge> 2 \<and> matchesAnything (take 2 text) inp then
        (if isComplete (take 2 text) inp then Some (2, []) else Some (0, inp))
      else if length text \<ge> 1 then
        (let oneChar = take 1 text in
         if oneChar = [SMALL_TSU] \<and> length text \<ge> 2
            \<and> Some inp \<in> set (getConsonants (take 1 (drop 1 text)))
         then Some (1, [])
         else if oneChar = [SMALL_TSU] \<and> length text \<ge> 2
            \<and> matchesAnything [SMALL_TSU] inp
         then (if isComplete [SMALL_TSU] inp then Some (1, []) else Some (0, inp))
         else if matchesAnything oneChar inp then
           (if isComplete oneChar inp then Some (1, []) else Some (0, inp))
         else
           (case find (\<lambda>r. startsWith inp r) (getPossibleRomaji oneChar) of
              Some r \<Rightarrow> Some (1, drop (length r) inp)
            | None \<Rightarrow>
               (if oneChar = [SMALL_TSU] \<and> length text \<ge> 2
                   \<and> matchesPrefix (take 1 (drop 1 text)) (str_of_undefined (charAt0 inp))
                then Some (1, inp)
                else if oneChar = [KANA_N] \<and> startsWith inp (ascii ''n'')
                   \<and> length (drop 1 inp) > 0
                   \<and> take 1 (drop 1 inp) \<notin> set vowels_y_n
                then Some (1, drop 1 inp)
                else None)))
      else None)"

definition input :: "RomajiCore \<Rightarrow> jsstring \<Rightarrow> bool \<times> RomajiCore" where
  "input s key =
     (if isFinished s then (False, s)
      else
        let remainingKana = drop (rc_currentIndex s) (kanaText s);
            nextInputBuffer = currentInputBuffer s @ key
        in (case checkMatch remainingKana nextInputBuffer of
              Some (completedKanaCount, remainingBuffer) \<Rightarrow>
                (let s1 = s\<lparr>currentInputBuffer := nextInputBuffer\<rparr>
                 in if completedKanaCount > 0
                    then (True, s1\<lparr>rc_currentIndex := rc_currentIndex s1 + completedKanaCount,
                                   currentInputBuffer := remainingBuffer\<rparr>)
                    else (True, s1))
            | None \<Rightarrow> (False, s)))"

text \<open>
  \<open>getNextExpectedRomaji\<close> returns a string, or \<open>undefined\<close> (None) where it reads the
  first element of an empty array of spellings. It does not read the buffer.
\<close>

definition first_of :: "jsstring list \<Rightarrow> jsstring option" where
  \<comment> \<open>\<open>rs[0]\<close>\<close>
  "first_of rs = (case rs of [] \<Rightarrow> None | r # _ \<Rightarrow> Some r)"

definition getNextExpectedRomaji :: "RomajiCore \<Rightarrow> jsstring option" where
  "getNextExpectedRomaji s =
     (if isFinished s then Some []
      else
        let remaining = drop (rc_currentIndex s) (kanaText s) in
        if startsWith remaining [SMALL_TSU] then
          (case (if length remaining > 1
                 then first_of (getPossibleRomaji (take 1 (drop 1 remaining))) else None) of
             Some (c # r) \<Rightarrow> Some (c # c # r)
           | _ \<Rightarrow> Some (ascii ''xtu''))
        else
          (case (if length remaining \<ge> 2 then ROMAJI_TABLE (take 2 remaining) else None) of
             Some rs \<Rightarrow> first_of rs
           | None \<Rightarrow>
              (case ROMAJI_TABLE (take 1 remaining) of
                 Some rs \<Rightarrow> first_of rs
               | None \<Rightarrow> Some (take 1 remaining))))"

definition getProgress :: "RomajiCore \<Rightarrow> nat \<times> jsstring \<times> jsstring option" where
  \<comment> \<open>the triple \<open>(index, buffer, toType)\<close>\<close>
  "getProgress s = (rc_currentIndex s, currentInputBuffer s, getNextExpectedRomaji s)"

fun inputs :: "RomajiCore \<Rightarrow> jsstring list \<Rightarrow> bool list \<times> RomajiCore" where
  "inputs s [] = ([], s)"
| "inputs s (k # ks) =
     (let (b, s1) = input s k; (bs, s2) = inputs s1 ks in (b # bs, s2))"

section \<open>Notions used to state the properties\<close>

text \<open>
  The number of calls of a sequence that are made while the handler is not yet finished.
\<close>

fun evaluated_calls :: "InputHandler \<Rightarrow> jsstring list \<Rightarrow> nat" where
  "evaluated_calls s [] = 0"
| "evaluated_calls s (k # ks) =
     (if currentIndex s < length (targetKana s) then 1 else 0)
     + evaluated_calls (snd (handleKey s k)) ks"

definition counts_one :: "InputHandler \<Rightarrow> bool \<times> InputHandler \<Rightarrow> bool" where
  \<comment> \<open>exactly one of the two counters went up, by one, and it is the one the result names\<close>
  "counts_one s res =
     (case res of (accepted, s1) \<Rightarrow>
        if accepted
        then totalTyped s1 = totalTyped s + 1 \<and> totalMisses s1 = totalMisses s
        else totalTyped s1 = totalTyped s \<and> totalMisses s1 = totalMisses s + 1)"

text \<open>
  When the sokuon is followed by another unit, each first letter of a spelling of the next
  unit completes it in \<open>RomajiCore\<close>: these are the doubling keys.
\<close>

definition doublingKeys :: "jsstring \<Rightarrow> jsstring list" where
  "doublingKeys remaining =
     (if take 1 remaining = [SMALL_TSU] \<and> 2 \<le> length remaining
      then List.map_filter id (getConsonants (take 1 (drop 1 remaining)))
      else [])"

text \<open>
  The key under which \<open>getNextExpectedRomaji\<close> looks the current unit up: the compound of
  two code units when the table has it, the first code unit otherwise. This is the key of
  the current unit of \<open>RomajiCore\<close>; its spellings are the table entry under this key.
\<close>

definition hintUnitKey :: "jsstring \<Rightarrow> jsstring" where
  "hintUnitKey remaining =
     (if 2 \<le> length remaining \<and> ROMAJI_TABLE (take 2 remaining) \<noteq> None
      then take 2 remaining else take 1 remaining)"

text \<open>
  The invariant of \<open>InputHandler\<close>: while a unit is current the buffer is a prefix of one
  of its spellings; at the end of the target the buffer is empty.
\<close>

definition ih_inv :: "InputHandler \<Rightarrow> bool" where
  "ih_inv s =
     (if currentIndex s < length (targetKana s)
      then \<exists>r\<in>set (getPossibleRomajis s (currentIndex s)). prefix (currentInput s) r
      else currentInput s = [])"

text \<open>
  \<open>RomajiCore.input\<close> takes any string as its key. The invariant of \<open>RomajiCore\<close> under
  single-character keys, on the remaining text and the buffer: the buffer is empty, or a prefix of a compound spelling, or a prefix of a
  spelling of the first unit that is not itself a spelling of it; and a non-empty buffer
  at a sokuon that is followed by a unit does not start with a first letter of that unit.
\<close>

definition rc_inv_at :: "jsstring \<Rightarrow> jsstring \<Rightarrow> bool" where
  "rc_inv_at remaining b \<longleftrightarrow>
     (b = []
      \<or> (2 \<le> length remaining
          \<and> (\<exists>e\<in>set (getPossibleRomaji (take 2 remaining)). prefix b e))
      \<or> ((\<exists>e\<in>set (getPossibleRomaji (take 1 remaining)). prefix b e)
          \<and> b \<notin> set (getPossibleRomaji (take 1 remaining))))
     \<and> (b = [] \<or> take 1 remaining \<noteq> [SMALL_TSU] \<or> length remaining < 2
        \<or> Some (take 1 b) \<notin> set (getConsonants (take 1 (drop 1 remaining))))"

definition rc_inv :: "RomajiCore \<Rightarrow> bool" where
  "rc_inv s = rc_inv_at (drop (rc_currentIndex s) (kanaText s)) (currentInputBuffer s)"

section \<open>Evaluation rules\<close>

lemmas string_eval = ascii_def startsWith_def charAt0_def str_of_undefined_def
  SMALL_TSU_def KANA_N_def

lemmas rc_fun_defs = input_def isFinished_def checkMatch_def matchesAnything_def
  matchesPrefix_def isComplete_def getConsonants_def getPossibleRomaji_def
  vowels_y_n_def newRomajiCore_def Let_def

lemmas ih_fun_defs = handleKey_def getPossibleRomajis_def advanceChar_def isCombo_def
  charAt_def smalls_def doubled_def setTarget_def newInputHandler_def Let_def

lemma ROMAJI_TABLE_lookups:
  "ROMAJI_TABLE [0x3063] = Some [ascii ''ltu'', ascii ''xtu'', ascii ''ltsu'']"
  "ROMAJI_TABLE [0x3068] = Some [ascii ''to'']"
  "ROMAJI_TABLE [0x3063, 0x3068] = None"
  "ROMAJI_TABLE [0x3093] = Some [ascii ''n'', ascii ''nn'', ascii [CHR 0x6E, CHR 0x27]]"
  "ROMAJI_TABLE [0x3042] = Some [ascii ''a'']"
  "ROMAJI_TABLE [0x3093, 0x3042] = None"
  "ROMAJI_TABLE [0x3055] = Some [ascii ''sa'']"
  "ROMAJI_TABLE [0x6F22] = None"
  "ROMAJI_TABLE [0x3057] = Some [ascii ''shi'', ascii ''si'', ascii ''ci'']"
  "ROMAJI_TABLE [0x3057, 0x3083] = Some [ascii ''sha'', ascii ''sya'']"
  "ROMAJI_TABLE [0x304B] = Some [ascii ''ka'', ascii ''ca'']"
  "ROMAJI_TABLE [0x3093, 0x304B] = None"
  "ROMAJI_TABLE [0x304B, 0x3042] = None"
  by (simp_all add: ROMAJI_TABLE_def ROMAJI_TABLE_entries_def)

lemma KANA_ROMAJI_MAP_lookups:
  "KANA_ROMAJI_MAP [0x3063] = Some [ascii ''xtu'', ascii ''xtsu'']"
  "KANA_ROMAJI_MAP [0x3068] = Some [ascii ''to'']"
  "KANA_ROMAJI_MAP [0x3055] = Some [ascii ''sa'']"
  "KANA_ROMAJI_MAP [0x6F22] = None"
  by (simp_all add: KANA_ROMAJI_MAP_def KANA_ROMAJI_MAP_entries_def)

lemma run_s_rc:
  "inputs (newRomajiCore [0x3055]) [ascii ''s'']
   = ([True], \<lparr>kanaText = [0x3055], rc_currentIndex = 0, currentInputBuffer = ascii ''s''\<rparr>)"
  by (simp add: rc_fun_defs ROMAJI_TABLE_lookups string_eval)

lemma run_s_ih:
  "handleKeys (setTarget newInputHandler [0x3055]) [ascii ''s'']
   = ([True], \<lparr>targetKana = [0x3055], currentInput = ascii ''s'', currentIndex = 0,
        totalTyped = 1, totalMisses = 0\<rparr>)"
  by (simp add: ih_fun_defs KANA_ROMAJI_MAP_lookups string_eval)

lemma run_s_compound:
  "inputs (newRomajiCore [0x3057, 0x3083]) [ascii ''s'']
   = ([True], \<lparr>kanaText = [0x3057, 0x3083], rc_currentIndex = 0,
        currentInputBuffer = ascii ''s''\<rparr>)"
  by (simp add: rc_fun_defs ROMAJI_TABLE_lookups string_eval)

lemma unit_spellings_evaluated:
  "getPossibleRomaji (hintUnitKey [0x3055]) = [ascii ''sa'']"
  "getPossibleRomaji (hintUnitKey [0x3057, 0x3083]) = [ascii ''sha'', ascii ''sya'']"
  "getPossibleRomaji (hintUnitKey [0x304B]) = [ascii ''ka'', ascii ''ca'']"
  "getPossibleRomaji (hintUnitKey [0x304B, 0x3042]) = [ascii ''ka'', ascii ''ca'']"
  "getPossibleRomaji (hintUnitKey [0x6F22]) = []"
  "getPossibleRomaji [0x3055] = [ascii ''sa'']"
  "getPossibleRomaji [0x3057] = [ascii ''shi'', ascii ''si'', ascii ''ci'']"
  "getPossibleRomaji [0x304B] = [ascii ''ka'', ascii ''ca'']"
  "getPossibleRomaji [0x6F22] = []"
  "doublingKeys [0x3055] = []"
  "doublingKeys [0x3057, 0x3083] = []"
  by (simp_all add: hintUnitKey_def doublingKeys_def getPossibleRomaji_def ROMAJI_TABLE_lookups
      SMALL_TSU_def)

section \<open>Spellings as ASCII literals\<close>

lemma ascii_eq_iff: "ascii a = ascii b \<longleftrightarrow> a = b"
  unfolding ascii_def by (simp add: inj_map_eq_map inj_of_char)

lemma ascii_Nil_iff: "ascii a = [] \<longleftrightarrow> a = []"
  by (simp add: ascii_def)

lemma Nil_ascii_iff: "[] = ascii a \<longleftrightarrow> a = []"
  by (auto simp: ascii_def)

lemma length_ascii: "length (ascii a) = length a"
  by (simp add: ascii_def)

lemma prefix_ascii: "prefix (ascii a) (ascii b) \<longleftrightarrow> prefix a b"
  unfolding ascii_def
proof (induction a arbitrary: b)
  case Nil
  show ?case by simp
next
  case (Cons x a)
  show ?case by (cases b) (simp_all add: Cons.IH)
qed

lemmas ascii_simps = ascii_eq_iff ascii_Nil_iff Nil_ascii_iff length_ascii prefix_ascii

section \<open>InputHandler: frame properties and counters\<close>

lemma handleKey_finished:
  "length (targetKana s) \<le> currentIndex s \<Longrightarrow> handleKey s key = (False, s)"
  by (simp add: handleKey_def)

lemma handleKeys_finished:
  "length (targetKana s) \<le> currentIndex s \<Longrightarrow>
   handleKeys s ks = (replicate (length ks) False, s)"
  by (induction ks) (simp_all add: handleKey_finished)

lemma input_finished: "isFinished s \<Longrightarrow> input s key = (False, s)"
  by (simp add: input_def)

lemma inputs_finished:
  "isFinished s \<Longrightarrow> inputs s ks = (replicate (length ks) False, s)"
  by (induction ks) (simp_all add: input_finished)

lemma handleKey_counts_one:
  assumes "currentIndex s < length (targetKana s)" and "length key = 1"
  shows "counts_one s (handleKey s key)"
  using assms
  by (simp add: handleKey_def counts_one_def advanceChar_def Let_def split: option.split)

lemma handleKey_counter_sum:
  assumes "length key = 1"
  shows "totalTyped (snd (handleKey s key)) + totalMisses (snd (handleKey s key))
         = totalTyped s + totalMisses s
           + (if currentIndex s < length (targetKana s) then 1 else 0)"
proof (cases "currentIndex s < length (targetKana s)")
  case True
  from handleKey_counts_one [OF True assms] True show ?thesis
    by (cases "handleKey s key") (auto simp: counts_one_def split: if_splits)
next
  case False
  then show ?thesis by (simp add: handleKey_finished)
qed

lemma handleKeys_snd_Cons:
  "snd (handleKeys s (k # ks)) = snd (handleKeys (snd (handleKey s k)) ks)"
  by (simp add: split_beta)

lemma handleKeys_counter_sum:
  "\<forall>k\<in>set ks. length k = 1 \<Longrightarrow>
   totalTyped (snd (handleKeys s ks)) + totalMisses (snd (handleKeys s ks))
   = totalTyped s + totalMisses s + evaluated_calls s ks"
proof (induction ks arbitrary: s)
  case Nil
  show ?case by simp
next
  case (Cons k ks)
  have k: "length k = 1" and ks: "\<forall>k\<in>set ks. length k = 1"
    using Cons.prems by simp_all
  show ?case
    unfolding handleKeys_snd_Cons
    using Cons.IH [OF ks, of "snd (handleKey s k)"] handleKey_counter_sum [OF k, of s]
    by simp
qed

section \<open>InputHandler: the buffer invariant\<close>

lemma KANA_values_nonempty: "\<forall>(k, v)\<in>set KANA_ROMAJI_MAP_entries. v \<noteq> []"
  by (simp add: KANA_ROMAJI_MAP_entries_def)

lemma COMBO_values_nonempty: "\<forall>(k, v)\<in>set COMBO_MAP_entries. v \<noteq> []"
  by (simp add: COMBO_MAP_entries_def)

lemma KANA_ROMAJI_MAP_nonempty: "KANA_ROMAJI_MAP k = Some v \<Longrightarrow> v \<noteq> []"
  using KANA_values_nonempty by (fastforce simp: KANA_ROMAJI_MAP_def dest: map_of_SomeD)

lemma COMBO_MAP_nonempty: "COMBO_MAP k = Some v \<Longrightarrow> v \<noteq> []"
  using COMBO_values_nonempty by (fastforce simp: COMBO_MAP_def dest: map_of_SomeD)

lemma possibleAt_nonempty: "possibleAt t \<noteq> []"
proof (cases t)
  case Nil
  then show ?thesis by simp
next
  case (Cons c1 rest)
  show ?thesis
  proof (cases "c1 = SMALL_TSU")
    case True
    with Cons show ?thesis by (cases rest) simp_all
  next
    case False
    with Cons show ?thesis
      by (auto split: option.split dest: KANA_ROMAJI_MAP_nonempty COMBO_MAP_nonempty)
  qed
qed

lemma ih_inv_fresh: "ih_inv (s\<lparr>currentIndex := i, currentInput := []\<rparr>)"
proof -
  obtain r rs where "possibleAt (drop i (targetKana s)) = r # rs"
    using possibleAt_nonempty by (cases "possibleAt (drop i (targetKana s))") auto
  then show ?thesis
    by (auto simp: ih_inv_def getPossibleRomajis_def)
qed

lemma ih_inv_setTarget: "ih_inv (setTarget s kana)"
  using ih_inv_fresh [where s = "s\<lparr>targetKana := kana\<rparr>" and i = 0] by (simp add: setTarget_def)

lemma ih_inv_handleKey:
  assumes "ih_inv s"
  shows "ih_inv (snd (handleKey s key))"
proof -
  have adv: "ih_inv (advanceChar s')" for s'
    using ih_inv_fresh [where s = s'] by (simp add: advanceChar_def Let_def)
  have part: "ih_inv (s\<lparr>currentInput := currentInput s @ key, totalTyped := totalTyped s + 1\<rparr>)"
    if "currentIndex s < length (targetKana s)"
      and "list_ex (\<lambda>r. startsWith r (currentInput s @ key)) (getPossibleRomajis s (currentIndex s))"
    using that by (simp add: ih_inv_def getPossibleRomajis_def list_ex_iff startsWith_def)
  have miss: "ih_inv (s\<lparr>totalMisses := totalMisses s + 1\<rparr>)"
    using assms by (auto simp: ih_inv_def getPossibleRomajis_def split: if_splits)
  show ?thesis
  proof (cases "currentIndex s < length (targetKana s) \<and> length key = 1")
    case False
    with assms show ?thesis by (auto simp: handleKey_def)
  next
    case True
    show ?thesis
    proof (cases "list_ex (\<lambda>r. startsWith r (currentInput s @ key))
                    (getPossibleRomajis s (currentIndex s))")
      case False
      with True miss show ?thesis by (simp add: handleKey_def Let_def)
    next
      case valid: True
      from part [OF _ valid] True
      have "ih_inv (s\<lparr>currentInput := currentInput s @ key, totalTyped := totalTyped s + 1\<rparr>)"
        by simp
      with True valid adv show ?thesis
        by (simp add: handleKey_def Let_def split: option.split)
    qed
  qed
qed

lemma ih_inv_handleKeys: "ih_inv s \<Longrightarrow> ih_inv (snd (handleKeys s ks))"
proof (induction ks arbitrary: s)
  case Nil
  then show ?case by simp
next
  case (Cons k ks)
  from Cons.prems have "ih_inv (snd (handleKey s k))" by (rule ih_inv_handleKey)
  then show ?case unfolding handleKeys_snd_Cons by (rule Cons.IH)
qed

section \<open>Facts about the table of RomajiCore\<close>

lemma spellings_nonempty: "\<forall>(k, v)\<in>set ROMAJI_TABLE_entries. [] \<notin> set v"
  by (simp add: ROMAJI_TABLE_entries_def ascii_simps)

lemma spellings_prefix_gap:
  "\<forall>(k, v)\<in>set ROMAJI_TABLE_entries. \<forall>r\<in>set v. \<forall>e\<in>set v. prefix r e \<longrightarrow> length e \<le> length r + 1"
  by (simp add: ROMAJI_TABLE_entries_def ascii_simps)

lemma no_sokuon_compound: "ROMAJI_TABLE [SMALL_TSU, c] = None"
  by (simp add: ROMAJI_TABLE_def ROMAJI_TABLE_entries_def SMALL_TSU_def)

lemma compound_head_lookups:
  "ROMAJI_TABLE [0x304D] = Some [ascii ''ki'']"
  "ROMAJI_TABLE [0x3057] = Some [ascii ''shi'', ascii ''si'', ascii ''ci'']"
  "ROMAJI_TABLE [0x3061] = Some [ascii ''chi'', ascii ''ti'']"
  "ROMAJI_TABLE [0x306B] = Some [ascii ''ni'']"
  "ROMAJI_TABLE [0x3072] = Some [ascii ''hi'']"
  "ROMAJI_TABLE [0x307F] = Some [ascii ''mi'']"
  "ROMAJI_TABLE [0x308A] = Some [ascii ''ri'']"
  "ROMAJI_TABLE [0x304E] = Some [ascii ''gi'']"
  "ROMAJI_TABLE [0x3058] = Some [ascii ''ji'', ascii ''zi'']"
  "ROMAJI_TABLE [0x3073] = Some [ascii ''bi'']"
  "ROMAJI_TABLE [0x3074] = Some [ascii ''pi'']"
  "ROMAJI_TABLE [0x3075] = Some [ascii ''fu'', ascii ''hu'']"
  "ROMAJI_TABLE [0x3046] = Some [ascii ''u'', ascii ''wu'', ascii ''whu'']"
  by (simp_all add: ROMAJI_TABLE_def ROMAJI_TABLE_entries_def)

lemma compound_not_extends_single:
  "\<forall>(k, v)\<in>set ROMAJI_TABLE_entries. length k = 2 \<longrightarrow>
     (\<forall>e\<in>set v. \<forall>r\<in>set (getPossibleRomaji (take 1 k)). \<not> prefix r e)"
  by (simp add: ROMAJI_TABLE_entries_def getPossibleRomaji_def compound_head_lookups ascii_simps)

lemma N_no_compound: "ROMAJI_TABLE [KANA_N, d] = None"
  by (simp add: ROMAJI_TABLE_def ROMAJI_TABLE_entries_def KANA_N_def)

lemma N_spellings:
  "getPossibleRomaji [KANA_N] = [ascii ''n'', ascii ''nn'', ascii [CHR 0x6E, CHR 0x27]]"
  by (simp add: getPossibleRomaji_def ROMAJI_TABLE_def ROMAJI_TABLE_entries_def KANA_N_def)

lemma single_n_completes:
  "checkMatch (KANA_N # rest) (0x6E # c # cs) =
     (if cs = [] \<and> (c = 0x6E \<or> c = 0x27) then Some (1, []) else Some (1, c # cs))"
proof -
  have two: "\<not> (2 \<le> length (KANA_N # rest)
               \<and> matchesAnything (take 2 (KANA_N # rest)) (0x6E # c # cs))"
    by (cases rest) (simp_all add: matchesAnything_def getPossibleRomaji_def N_no_compound)
  have ne: "[KANA_N] \<noteq> [SMALL_TSU]"
    by (simp add: KANA_N_def SMALL_TSU_def)
  show ?thesis
    unfolding checkMatch_def using two ne
    by (auto simp: Let_def matchesAnything_def isComplete_def N_spellings startsWith_def ascii_def)
qed

section \<open>RomajiCore: the buffer invariant\<close>

lemma getPossibleRomaji_entry:
  assumes "r \<in> set (getPossibleRomaji k)"
  shows "(k, getPossibleRomaji k) \<in> set ROMAJI_TABLE_entries"
  using assms
  by (auto simp: getPossibleRomaji_def ROMAJI_TABLE_def split: option.splits dest: map_of_SomeD)

lemma spelling_not_Nil: "r \<in> set (getPossibleRomaji k) \<Longrightarrow> r \<noteq> []"
  using spellings_nonempty getPossibleRomaji_entry by fastforce

lemma spelling_gap:
  assumes "r \<in> set (getPossibleRomaji k)" and "e \<in> set (getPossibleRomaji k)" and "prefix r e"
  shows "length e \<le> length r + 1"
proof -
  from assms(1) have "(k, getPossibleRomaji k) \<in> set ROMAJI_TABLE_entries"
    by (rule getPossibleRomaji_entry)
  with spellings_prefix_gap assms show ?thesis by fastforce
qed

lemma compound_spelling_not_single:
  assumes "length k = 2" and "e \<in> set (getPossibleRomaji k)"
    and "r \<in> set (getPossibleRomaji (take 1 k))"
  shows "\<not> prefix r e"
proof -
  from assms(2) have "(k, getPossibleRomaji k) \<in> set ROMAJI_TABLE_entries"
    by (rule getPossibleRomaji_entry)
  with compound_not_extends_single assms show ?thesis by fastforce
qed

lemma sokuon_no_compound: "getPossibleRomaji [SMALL_TSU, c] = []"
  by (simp add: getPossibleRomaji_def no_sokuon_compound)

lemma n_spells_N: "ascii ''n'' \<in> set (getPossibleRomaji [KANA_N])"
  by (simp add: getPossibleRomaji_def KANA_N_def ROMAJI_TABLE_def ROMAJI_TABLE_entries_def)

lemma charAt0_eq: "charAt0 r = Some [c] \<longleftrightarrow> prefix [c] r"
  by (cases r) (auto simp: charAt0_def)

lemma set_getConsonants: "set (getConsonants kana) = charAt0 ` set (getPossibleRomaji kana)"
  by (simp add: getConsonants_def)

lemma matchesPrefix_consonant:
  "matchesPrefix kana [c] \<longleftrightarrow> Some [c] \<in> set (getConsonants kana)"
proof -
  have "Some [c] \<in> set (getConsonants kana)
        \<longleftrightarrow> (\<exists>r\<in>set (getPossibleRomaji kana). charAt0 r = Some [c])"
    unfolding set_getConsonants by (metis image_iff)
  then show ?thesis
    by (simp add: matchesPrefix_def list_ex_iff startsWith_def charAt0_eq)
qed

lemma dead_overflow:
  assumes inv: "rc_inv_at text b"
    and nomatch: "\<not> matchesAnything (take 1 text) (b @ [k])"
  shows "find (\<lambda>r. startsWith (b @ [k]) r) (getPossibleRomaji (take 1 text)) = None"
proof (rule ccontr)
  assume "find (\<lambda>r. startsWith (b @ [k]) r) (getPossibleRomaji (take 1 text)) \<noteq> None"
  then obtain r where r: "r \<in> set (getPossibleRomaji (take 1 text))" and pre: "prefix r (b @ [k])"
    by (auto simp: find_None_iff startsWith_def)
  from nomatch r have "r \<noteq> b @ [k]"
    by (auto simp: matchesAnything_def list_ex_iff startsWith_def)
  with pre have rb: "prefix r b" by simp
  from r have rne: "r \<noteq> []" by (rule spelling_not_Nil)
  from inv consider (empty) "b = []"
    | (compound) e where "2 \<le> length text" "e \<in> set (getPossibleRomaji (take 2 text))" "prefix b e"
    | (single) e where "e \<in> set (getPossibleRomaji (take 1 text))" "prefix b e"
        "b \<notin> set (getPossibleRomaji (take 1 text))"
    by (auto simp: rc_inv_at_def)
  then show False
  proof cases
    case empty
    with rb rne show False by simp
  next
    case compound
    have len: "length (take 2 text) = 2" using compound(1) by simp
    have t1: "take 1 (take 2 text) = take 1 text" by simp
    from rb compound(3) have "prefix r e" by (rule prefix_order.trans)
    with compound_spelling_not_single [OF len compound(2)] r t1 show False by simp
  next
    case single
    from r single(3) have "r \<noteq> b" by auto
    with rb have "length r < length b"
      by (metis prefix_length_less strict_prefixI)
    moreover from single have "b \<noteq> e" by auto
    with single(2) have "length b < length e"
      by (metis prefix_length_less strict_prefixI)
    moreover from rb single(2) have "prefix r e" by (rule prefix_order.trans)
    from spelling_gap [OF r single(1) this] have "length e \<le> length r + 1" .
    ultimately show False by simp
  qed
qed

lemma dead_sokuon_first_key:
  assumes inv: "rc_inv_at text b"
    and tsu: "take 1 text = [SMALL_TSU]" and len: "2 \<le> length text"
    and nocons: "Some (b @ [k]) \<notin> set (getConsonants (take 1 (drop 1 text)))"
  shows "\<not> matchesPrefix (take 1 (drop 1 text)) (str_of_undefined (charAt0 (b @ [k])))"
proof (cases b)
  case Nil
  with nocons show ?thesis
    by (simp add: charAt0_def str_of_undefined_def matchesPrefix_consonant)
next
  case (Cons x xs)
  with inv tsu len have "Some [x] \<notin> set (getConsonants (take 1 (drop 1 text)))"
    by (simp add: rc_inv_at_def)
  with Cons show ?thesis
    by (simp add: charAt0_def str_of_undefined_def matchesPrefix_consonant)
qed

lemma dead_single_n:
  assumes "find (\<lambda>r. startsWith inp r) (getPossibleRomaji [KANA_N]) = None"
  shows "\<not> startsWith inp (ascii ''n'')"
  using assms n_spells_N by (auto simp: find_None_iff)

text \<open>In a state that satisfies the invariant, three branches of checkMatch are never taken.\<close>

lemma checkMatch_reachable:
  assumes inv: "rc_inv_at text b"
  shows "checkMatch text (b @ [k]) =
     (if 2 \<le> length text \<and> matchesAnything (take 2 text) (b @ [k]) then
        (if isComplete (take 2 text) (b @ [k]) then Some (2, []) else Some (0, b @ [k]))
      else if 1 \<le> length text then
        (if take 1 text = [SMALL_TSU] \<and> 2 \<le> length text
            \<and> Some (b @ [k]) \<in> set (getConsonants (take 1 (drop 1 text)))
         then Some (1, [])
         else if matchesAnything (take 1 text) (b @ [k]) then
           (if isComplete (take 1 text) (b @ [k]) then Some (1, []) else Some (0, b @ [k]))
         else None)
      else None)"
proof (cases "matchesAnything (take 1 text) (b @ [k])")
  case True
  then show ?thesis by (auto simp: checkMatch_def Let_def)
next
  case False
  note f = dead_overflow [OF inv False]
  show ?thesis
  proof (cases "take 1 text = [SMALL_TSU] \<and> 2 \<le> length text
            \<and> Some (b @ [k]) \<notin> set (getConsonants (take 1 (drop 1 text)))")
    case True
    then have "\<not> matchesPrefix (take 1 (drop 1 text)) (str_of_undefined (charAt0 (b @ [k])))"
      using dead_sokuon_first_key [OF inv] by simp
    moreover from True have "take 1 text \<noteq> [KANA_N]" by (simp add: SMALL_TSU_def KANA_N_def)
    ultimately show ?thesis using False f True
      by (simp add: checkMatch_def Let_def)
  next
    case nt: False
    show ?thesis
    proof (cases "take 1 text = [KANA_N]")
      case True
      with f have "\<not> startsWith (b @ [k]) (ascii ''n'')"
        using dead_single_n by simp
      with True False f show ?thesis
        by (simp add: checkMatch_def Let_def SMALL_TSU_def KANA_N_def)
    next
      case notn: False
      with False f nt show ?thesis
        by (auto simp: checkMatch_def Let_def)
    qed
  qed
qed

lemma rc_inv_at_Nil: "rc_inv_at text []"
  by (simp add: rc_inv_at_def)

lemma rc_inv_new: "rc_inv (newRomajiCore kana)"
  by (simp add: rc_inv_def newRomajiCore_def rc_inv_at_Nil)

lemma matchesAnything_iff:
  "matchesAnything kana inp \<longleftrightarrow> (\<exists>e\<in>set (getPossibleRomaji kana). prefix inp e)"
  by (simp add: matchesAnything_def list_ex_iff startsWith_def)

lemma rc_inv_at_partial:
  assumes inv: "rc_inv_at text b"
    and res: "checkMatch text (b @ [k]) = Some (0, rem)"
  shows "rc_inv_at text (b @ [k])"
proof -
  note eq = checkMatch_reachable [OF inv, of k]
  have first: "(2 \<le> length text \<and> (\<exists>e\<in>set (getPossibleRomaji (take 2 text)). prefix (b @ [k]) e))
      \<or> ((\<exists>e\<in>set (getPossibleRomaji (take 1 text)). prefix (b @ [k]) e)
          \<and> b @ [k] \<notin> set (getPossibleRomaji (take 1 text)))"
    using res unfolding eq
    by (auto simp: matchesAnything_iff isComplete_def split: if_splits)
  have second: "take 1 text \<noteq> [SMALL_TSU] \<or> length text < 2
        \<or> Some (take 1 (b @ [k])) \<notin> set (getConsonants (take 1 (drop 1 text)))"
  proof (cases "take 1 text = [SMALL_TSU] \<and> 2 \<le> length text")
    case False
    then show ?thesis by auto
  next
    case True
    then obtain c cs where tx: "text = SMALL_TSU # c # cs"
      by (cases "text"; cases "tl text") auto
    have nocomp: "\<not> matchesAnything (take 2 text) (b @ [k])"
      by (simp add: tx matchesAnything_def sokuon_no_compound)
    with res True have nocons: "Some (b @ [k]) \<notin> set (getConsonants (take 1 (drop 1 text)))"
      unfolding eq by (auto split: if_splits)
    show ?thesis
    proof (cases b)
      case Nil
      with nocons show ?thesis by simp
    next
      case (Cons x xs)
      with inv True have "Some [x] \<notin> set (getConsonants (take 1 (drop 1 text)))"
        by (simp add: rc_inv_at_def)
      with Cons show ?thesis by simp
    qed
  qed
  from first second show ?thesis
    by (simp add: rc_inv_at_def)
qed

lemma checkMatch_complete_empty:
  assumes inv: "rc_inv_at text b"
    and res: "checkMatch text (b @ [k]) = Some (n, rem)" and n: "0 < n"
  shows "rem = []"
  using res n unfolding checkMatch_reachable [OF inv, of k]
  by (auto split: if_splits)

lemma rc_inv_input:
  assumes inv: "rc_inv s" and key: "length key = 1"
  shows "rc_inv (snd (input s key))"
proof (cases "isFinished s")
  case True
  with inv show ?thesis by (simp add: input_def)
next
  case False
  from key obtain k where k: "key = [k]"
    by (cases key) auto
  let ?text = "drop (rc_currentIndex s) (kanaText s)"
  let ?b = "currentInputBuffer s"
  from inv have at: "rc_inv_at ?text ?b" by (simp add: rc_inv_def)
  show ?thesis
  proof (cases "checkMatch ?text (?b @ [k])")
    case None
    with False inv show ?thesis by (simp add: input_def k)
  next
    case (Some res)
    obtain n rem where res: "res = (n, rem)" by (cases res)
    show ?thesis
    proof (cases "0 < n")
      case True
      from checkMatch_complete_empty [OF at Some [unfolded res] True] have "rem = []" .
      with False Some res True show ?thesis
        by (simp add: input_def k rc_inv_def rc_inv_at_Nil)
    next
      case n0: False
      then have "n = 0" by simp
      with Some res have "checkMatch ?text (?b @ [k]) = Some (0, rem)" by simp
      from rc_inv_at_partial [OF at this] False Some res n0 show ?thesis
        by (simp add: input_def k rc_inv_def)
    qed
  qed
qed

lemma inputs_snd_Cons: "snd (inputs s (k # ks)) = snd (inputs (snd (input s k)) ks)"
  by (simp add: split_beta)

lemma rc_inv_inputs:
  "rc_inv s \<Longrightarrow> \<forall>k\<in>set ks. length k = 1 \<Longrightarrow> rc_inv (snd (inputs s ks))"
proof (induction ks arbitrary: s)
  case Nil
  then show ?case by simp
next
  case (Cons k ks)
  from Cons.prems have "rc_inv (snd (input s k))"
    by (simp add: rc_inv_input)
  with Cons show ?case
    unfolding inputs_snd_Cons by simp
qed

lemma compound_or_single:
  "set (getPossibleRomaji (take 2 remaining))
   \<subseteq> set (getPossibleRomaji (hintUnitKey remaining))
     \<union> set (getPossibleRomaji (take 1 remaining))"
proof (cases "2 \<le> length remaining")
  case True
  then show ?thesis
    by (auto simp: hintUnitKey_def getPossibleRomaji_def split: option.splits)
next
  case False
  then have "length remaining \<le> 1" by simp
  then have "take 2 remaining = take 1 remaining" by simp
  then show ?thesis by auto
qed

lemma rc_inv_prefix:
  assumes "rc_inv_at remaining b"
  shows "(\<exists>e\<in>set (getPossibleRomaji (hintUnitKey remaining)). prefix b e)
     \<or> (\<exists>e\<in>set (getPossibleRomaji (take 1 remaining)). prefix b e)
     \<or> (getPossibleRomaji (hintUnitKey remaining) = []
        \<and> getPossibleRomaji (take 1 remaining) = [] \<and> b = [])"
proof -
  from assms consider (empty) "b = []"
    | (compound) e where "e \<in> set (getPossibleRomaji (take 2 remaining))" "prefix b e"
    | (single) e where "e \<in> set (getPossibleRomaji (take 1 remaining))" "prefix b e"
    by (auto simp: rc_inv_at_def)
  then show ?thesis
  proof cases
    case empty
    show ?thesis
    proof (cases "getPossibleRomaji (hintUnitKey remaining)")
      case (Cons e es)
      with empty show ?thesis by auto
    next
      case Nil
      with empty show ?thesis
        by (cases "getPossibleRomaji (take 1 remaining)") auto
    qed
  next
    case compound
    with compound_or_single [of remaining] show ?thesis by blast
  next
    case single
    then show ?thesis by blast
  qed
qed




section \<open>Units without a table entry\<close>

lemma compound_heads_known:
  "\<forall>(k, v)\<in>set ROMAJI_TABLE_entries. length k = 2 \<longrightarrow> ROMAJI_TABLE (take 1 k) \<noteq> None"
  by (simp add: ROMAJI_TABLE_entries_def compound_head_lookups)

lemma unknown_head:
  assumes "ROMAJI_TABLE [c] = None"
  shows "ROMAJI_TABLE [c, d] = None"
proof (rule ccontr)
  assume "ROMAJI_TABLE [c, d] \<noteq> None"
  then obtain v where "([c, d], v) \<in> set ROMAJI_TABLE_entries"
    by (auto simp: ROMAJI_TABLE_def dest: map_of_SomeD)
  with compound_heads_known have "ROMAJI_TABLE (take 1 [c, d]) \<noteq> None"
    by fastforce
  with assms show False by simp
qed

lemma sokuon_known: "ROMAJI_TABLE [SMALL_TSU] \<noteq> None" "ROMAJI_TABLE [KANA_N] \<noteq> None"
  by (simp_all add: ROMAJI_TABLE_def ROMAJI_TABLE_entries_def SMALL_TSU_def KANA_N_def)

lemma checkMatch_unknown:
  assumes "ROMAJI_TABLE [c] = None"
  shows "checkMatch (c # rest) inp = None"
proof -
  from assms sokuon_known have ne: "c \<noteq> SMALL_TSU" "c \<noteq> KANA_N" by auto
  have one: "getPossibleRomaji [c] = []"
    using assms by (simp add: getPossibleRomaji_def)
  show ?thesis
  proof (cases rest)
    case Nil
    with ne show ?thesis
      by (simp add: checkMatch_def matchesAnything_def one Let_def)
  next
    case (Cons d ds)
    have "getPossibleRomaji [c, d] = []"
      using assms by (simp add: getPossibleRomaji_def unknown_head)
    with Cons ne show ?thesis
      by (simp add: checkMatch_def matchesAnything_def one Let_def)
  qed
qed

lemma input_unknown:
  assumes "\<not> isFinished s" and "ROMAJI_TABLE [kanaText s ! rc_currentIndex s] = None"
  shows "input s key = (False, s)"
proof -
  from assms(1) have "drop (rc_currentIndex s) (kanaText s)
      = kanaText s ! rc_currentIndex s # drop (Suc (rc_currentIndex s)) (kanaText s)"
    by (simp add: isFinished_def Cons_nth_drop_Suc)
  with assms show ?thesis
    by (simp add: input_def checkMatch_unknown)
qed

lemma inputs_unknown:
  assumes "\<not> isFinished s" and "ROMAJI_TABLE [kanaText s ! rc_currentIndex s] = None"
  shows "inputs s ks = (replicate (length ks) False, s)"
  by (induction ks) (simp_all add: input_unknown [OF assms])

lemma combo_head_lookups:
  "KANA_ROMAJI_MAP [0x304D] = Some [ascii ''ki'']"
  "KANA_ROMAJI_MAP [0x3057] = Some [ascii ''shi'', ascii ''si'', ascii ''ci'']"
  "KANA_ROMAJI_MAP [0x3061] = Some [ascii ''chi'', ascii ''ti'']"
  "KANA_ROMAJI_MAP [0x306B] = Some [ascii ''ni'']"
  "KANA_ROMAJI_MAP [0x3072] = Some [ascii ''hi'']"
  "KANA_ROMAJI_MAP [0x307F] = Some [ascii ''mi'']"
  "KANA_ROMAJI_MAP [0x308A] = Some [ascii ''ri'']"
  "KANA_ROMAJI_MAP [0x304E] = Some [ascii ''gi'']"
  "KANA_ROMAJI_MAP [0x3058] = Some [ascii ''ji'', ascii ''zi'']"
  "KANA_ROMAJI_MAP [0x3073] = Some [ascii ''bi'']"
  "KANA_ROMAJI_MAP [0x3074] = Some [ascii ''pi'']"
  by (simp_all add: KANA_ROMAJI_MAP_def KANA_ROMAJI_MAP_entries_def)

lemma COMBO_heads_known: "\<forall>(k, v)\<in>set COMBO_MAP_entries. KANA_ROMAJI_MAP (take 1 k) \<noteq> None"
  by (simp add: COMBO_MAP_entries_def combo_head_lookups)

lemma unknown_head_combo:
  assumes "KANA_ROMAJI_MAP [c] = None"
  shows "COMBO_MAP (c # cs) = None"
proof (rule ccontr)
  assume "COMBO_MAP (c # cs) \<noteq> None"
  then obtain v where "(c # cs, v) \<in> set COMBO_MAP_entries"
    by (auto simp: COMBO_MAP_def dest: map_of_SomeD)
  with COMBO_heads_known have "KANA_ROMAJI_MAP (take 1 (c # cs)) \<noteq> None"
    by fastforce
  with assms show False by simp
qed

lemma sokuon_known_ih: "KANA_ROMAJI_MAP [SMALL_TSU] \<noteq> None"
  by (simp add: KANA_ROMAJI_MAP_def KANA_ROMAJI_MAP_entries_def SMALL_TSU_def)

lemma possibleAt_unknown:
  assumes "KANA_ROMAJI_MAP [c] = None"
  shows "possibleAt (c # rest) = [ascii ''?'']"
proof -
  from assms sokuon_known_ih have "c \<noteq> SMALL_TSU" by auto
  then show ?thesis
    using assms by (simp add: unknown_head_combo)
qed

lemma prefix_question: "length key = 1 \<Longrightarrow> prefix (b @ key) (ascii ''?'') \<longleftrightarrow> b @ key = ascii ''?''"
  by (cases key; cases b) (auto simp: ascii_def)

lemma handleKey_unknown:
  assumes nf: "currentIndex s < length (targetKana s)"
    and un: "KANA_ROMAJI_MAP [targetKana s ! currentIndex s] = None"
    and key: "length key = 1"
  shows "fst (handleKey s key) = (currentInput s @ key = ascii ''?'')"
    and "currentInput s @ key = ascii ''?'' \<Longrightarrow>
         currentIndex s < currentIndex (snd (handleKey s key))"
proof -
  from nf have "drop (currentIndex s) (targetKana s)
      = targetKana s ! currentIndex s # drop (Suc (currentIndex s)) (targetKana s)"
    by (simp add: Cons_nth_drop_Suc)
  then have "getPossibleRomajis s (currentIndex s)
      = possibleAt (targetKana s ! currentIndex s # drop (Suc (currentIndex s)) (targetKana s))"
    by (simp only: getPossibleRomajis_def)
  also have "\<dots> = [ascii ''?'']"
    using un by (rule possibleAt_unknown)
  finally have poss: "getPossibleRomajis s (currentIndex s) = [ascii ''?'']" .
  from nf key show "fst (handleKey s key) = (currentInput s @ key = ascii ''?'')"
    by (simp add: handleKey_def poss startsWith_def prefix_question Let_def split: option.split)
  assume "currentInput s @ key = ascii ''?''"
  with nf key show "currentIndex s < currentIndex (snd (handleKey s key))"
    by (simp add: handleKey_def poss startsWith_def advanceChar_def Let_def)
qed

section \<open>The hint\<close>

lemma startsWith_sokuon: "startsWith remaining [SMALL_TSU] \<longleftrightarrow> take 1 remaining = [SMALL_TSU]"
  by (cases remaining) (auto simp: startsWith_def)

lemma hint_ignores_buffer:
  "getNextExpectedRomaji (s\<lparr>currentInputBuffer := b\<rparr>) = getNextExpectedRomaji s"
  by (simp add: getNextExpectedRomaji_def isFinished_def)

lemma hint_canonical:
  assumes "\<not> isFinished s"
    and "take 1 (drop (rc_currentIndex s) (kanaText s)) \<noteq> [SMALL_TSU]"
    and "ROMAJI_TABLE (hintUnitKey (drop (rc_currentIndex s) (kanaText s))) = Some (r # rs)"
  shows "getNextExpectedRomaji s = Some r"
  using assms
  by (auto simp: getNextExpectedRomaji_def hintUnitKey_def startsWith_sokuon first_of_def Let_def
      split: if_splits option.splits)

section \<open>Claims\<close>

text \<open>
  C1 (what the code does on the target U+3063 U+3068 with the keys t, o). In
  \<open>RomajiCore\<close> the first key is accepted and completes the sokuon (cursor 1), but the
  branch that matches a first letter of the next unit returns the empty buffer, so the
  buffer is empty afterwards and the key o is rejected; the keys t, t, o complete the
  target. In \<open>InputHandler\<close> the first key is accepted as a prefix of the doubled
  spelling tto without advancing the cursor, and the key o is rejected.
\<close>

theorem sokuon_t_o_run:
  "input (newRomajiCore [0x3063, 0x3068]) (ascii ''t'')
     = (True, \<lparr>kanaText = [0x3063, 0x3068], rc_currentIndex = 1, currentInputBuffer = []\<rparr>)
   \<and> input \<lparr>kanaText = [0x3063, 0x3068], rc_currentIndex = 1, currentInputBuffer = []\<rparr>
         (ascii ''o'')
     = (False, \<lparr>kanaText = [0x3063, 0x3068], rc_currentIndex = 1, currentInputBuffer = []\<rparr>)
   \<and> inputs (newRomajiCore [0x3063, 0x3068]) [ascii ''t'', ascii ''t'', ascii ''o'']
     = ([True, True, True],
        \<lparr>kanaText = [0x3063, 0x3068], rc_currentIndex = 2, currentInputBuffer = []\<rparr>)
   \<and> handleKeys (setTarget newInputHandler [0x3063, 0x3068]) [ascii ''t'', ascii ''o'']
     = ([True, False],
        \<lparr>targetKana = [0x3063, 0x3068], currentInput = ascii ''t'', currentIndex = 0,
         totalTyped = 1, totalMisses = 1\<rparr>)"
proof -
  have a: "input (newRomajiCore [0x3063, 0x3068]) (ascii ''t'')
     = (True, \<lparr>kanaText = [0x3063, 0x3068], rc_currentIndex = 1, currentInputBuffer = []\<rparr>)"
    by (simp add: rc_fun_defs ROMAJI_TABLE_lookups string_eval)
  have b: "input \<lparr>kanaText = [0x3063, 0x3068], rc_currentIndex = 1, currentInputBuffer = []\<rparr>
         (ascii ''o'')
     = (False, \<lparr>kanaText = [0x3063, 0x3068], rc_currentIndex = 1, currentInputBuffer = []\<rparr>)"
    by (simp add: rc_fun_defs ROMAJI_TABLE_lookups string_eval)
  have c: "inputs (newRomajiCore [0x3063, 0x3068]) [ascii ''t'', ascii ''t'', ascii ''o'']
     = ([True, True, True],
        \<lparr>kanaText = [0x3063, 0x3068], rc_currentIndex = 2, currentInputBuffer = []\<rparr>)"
    by (simp add: rc_fun_defs ROMAJI_TABLE_lookups string_eval)
  have d: "handleKeys (setTarget newInputHandler [0x3063, 0x3068]) [ascii ''t'', ascii ''o'']
     = ([True, False],
        \<lparr>targetKana = [0x3063, 0x3068], currentInput = ascii ''t'', currentIndex = 0,
         totalTyped = 1, totalMisses = 1\<rparr>)"
    by (simp add: ih_fun_defs KANA_ROMAJI_MAP_lookups string_eval)
  from a b c d show ?thesis by (intro conjI)
qed

text \<open>
  C2 (what the code does with a single n at the unit U+3093). \<open>checkMatch\<close> on a text
  that starts with U+3093 and an input that starts with n and has a further character
  always completes the unit: with the empty buffer left when the input is nn or n followed
  by an apostrophe, and with everything after the n left over otherwise, a vowel, y or n
  included. The guard on the character after the n is never reached, because n is itself
  a spelling of the unit and the search for a complete spelling at the front of the input
  comes first. On the target U+3093 U+3042 the input na completes the first unit and
  leaves a in the buffer.
\<close>

theorem single_n_before_vowel:
  "checkMatch [0x3093, 0x3042] (ascii ''na'') = Some (1, ascii ''a'')
   \<and> input (newRomajiCore [0x3093, 0x3042]) (ascii ''na'')
     = (True, \<lparr>kanaText = [0x3093, 0x3042], rc_currentIndex = 1,
               currentInputBuffer = ascii ''a''\<rparr>)
   \<and> checkMatch (KANA_N # rest) (0x6E # c # cs)
     = (if cs = [] \<and> (c = 0x6E \<or> c = 0x27) then Some (1, []) else Some (1, c # cs))"
proof -
  have a: "checkMatch [0x3093, 0x3042] (ascii ''na'') = Some (1, ascii ''a'')"
    by (simp add: rc_fun_defs ROMAJI_TABLE_lookups string_eval)
  have b: "input (newRomajiCore [0x3093, 0x3042]) (ascii ''na'')
     = (True, \<lparr>kanaText = [0x3093, 0x3042], rc_currentIndex = 1,
               currentInputBuffer = ascii ''a''\<rparr>)"
    by (simp add: rc_fun_defs ROMAJI_TABLE_lookups string_eval)
  from a b single_n_completes [of rest c cs] show ?thesis by (intro conjI)
qed

text \<open>
  C3. With single-character keys, every call made while the handler is not finished
  increments exactly one of \<open>totalTyped\<close> and \<open>totalMisses\<close>, by exactly 1; so after any
  sequence of such calls the sum of the two counters has grown by the number of calls made
  while not finished.
\<close>

theorem counter_conservation:
  "(currentIndex s < length (targetKana s) \<and> length key = 1 \<longrightarrow>
      counts_one s (handleKey s key))
   \<and> ((\<forall>k\<in>set ks. length k = 1) \<longrightarrow>
      totalTyped (snd (handleKeys s ks)) + totalMisses (snd (handleKeys s ks))
      = totalTyped s + totalMisses s + evaluated_calls s ks)"
  by (simp add: handleKey_counts_one handleKeys_counter_sum)

theorem counter_conservation_witness:
  "counts_one (setTarget newInputHandler [0x3055])
     (handleKey (setTarget newInputHandler [0x3055]) (ascii ''s''))
   \<and> counts_one (setTarget newInputHandler [0x3055])
     (handleKey (setTarget newInputHandler [0x3055]) (ascii ''z''))
   \<and> fst (handleKey (setTarget newInputHandler [0x3055]) (ascii ''s''))
   \<and> \<not> fst (handleKey (setTarget newInputHandler [0x3055]) (ascii ''z''))
   \<and> evaluated_calls (setTarget newInputHandler [0x3055])
        [ascii ''s'', ascii ''z'', ascii ''a'', ascii ''a''] = 3
   \<and> getStats (snd (handleKeys (setTarget newInputHandler [0x3055])
        [ascii ''s'', ascii ''z'', ascii ''a'', ascii ''a''])) = (2, 1)"
proof -
  let ?s = "setTarget newInputHandler [0x3055]"
  let ?ks = "[ascii ''s'', ascii ''z'', ascii ''a'', ascii ''a'']"
  have len: "\<forall>k\<in>set ?ks. length k = 1"
    by (simp add: ascii_def)
  have nf: "currentIndex ?s < length (targetKana ?s)"
    by (simp add: setTarget_def)
  have one: "length (ascii ''s'') = 1" "length (ascii ''z'') = 1"
    by (simp_all add: ascii_def)
  have acc: "fst (handleKey ?s (ascii ''s''))" "\<not> fst (handleKey ?s (ascii ''z''))"
    by (simp_all add: ih_fun_defs KANA_ROMAJI_MAP_lookups string_eval)
  have calls: "evaluated_calls ?s ?ks = 3"
    by (simp add: ih_fun_defs KANA_ROMAJI_MAP_lookups string_eval)
  have stats: "getStats (snd (handleKeys ?s ?ks)) = (2, 1)"
    by (simp add: getStats_def ih_fun_defs KANA_ROMAJI_MAP_lookups string_eval)
  from counter_conservation [of ?s "ascii ''s''" ?ks] nf one len
  have a: "counts_one ?s (handleKey ?s (ascii ''s''))" by simp
  from counter_conservation [of ?s "ascii ''z''" ?ks] nf one len
  have b: "counts_one ?s (handleKey ?s (ascii ''z''))" by simp
  from a b acc calls stats show ?thesis by simp
qed

text \<open>
  C4. Once the cursor has reached the end of the target, every further call is rejected
  and changes nothing: cursor, buffer and both counters stay as they are, for any keys and
  any number of calls. This holds for \<open>InputHandler.handleKey\<close> and for
  \<open>RomajiCore.input\<close>.
\<close>

theorem finished_absorbs:
  "(length (targetKana s) \<le> currentIndex s \<longrightarrow>
      handleKeys s ks = (replicate (length ks) False, s))
   \<and> (isFinished r \<longrightarrow> inputs r ks = (replicate (length ks) False, r))"
  by (simp add: handleKeys_finished inputs_finished)

theorem finished_absorbs_witness:
  "handleKeys (setTarget newInputHandler [0x3055]) [ascii ''s'', ascii ''a'']
     = ([True, True],
        \<lparr>targetKana = [0x3055], currentInput = [], currentIndex = 1,
         totalTyped = 2, totalMisses = 0\<rparr>)
   \<and> handleKeys \<lparr>targetKana = [0x3055], currentInput = [], currentIndex = 1,
         totalTyped = 2, totalMisses = 0\<rparr> [ascii ''s'', ascii ''xyz'', []]
     = ([False, False, False],
        \<lparr>targetKana = [0x3055], currentInput = [], currentIndex = 1,
         totalTyped = 2, totalMisses = 0\<rparr>)
   \<and> isFinished \<lparr>kanaText = [0x3055], rc_currentIndex = 1, currentInputBuffer = []\<rparr>
   \<and> inputs \<lparr>kanaText = [0x3055], rc_currentIndex = 1, currentInputBuffer = []\<rparr>
         [ascii ''s'', ascii ''a'']
     = ([False, False],
        \<lparr>kanaText = [0x3055], rc_currentIndex = 1, currentInputBuffer = []\<rparr>)"
proof -
  have run: "handleKeys (setTarget newInputHandler [0x3055]) [ascii ''s'', ascii ''a'']
     = ([True, True],
        \<lparr>targetKana = [0x3055], currentInput = [], currentIndex = 1,
         totalTyped = 2, totalMisses = 0\<rparr>)"
    by (simp add: ih_fun_defs KANA_ROMAJI_MAP_lookups string_eval)
  show ?thesis
    using run
      finished_absorbs [of "\<lparr>targetKana = [0x3055], currentInput = [], currentIndex = 1,
         totalTyped = 2, totalMisses = 0\<rparr>" "[ascii ''s'', ascii ''xyz'', []]"
         "\<lparr>kanaText = [0x3055], rc_currentIndex = 1, currentInputBuffer = []\<rparr>"]
      finished_absorbs [of "\<lparr>targetKana = [0x3055], currentInput = [], currentIndex = 1,
         totalTyped = 2, totalMisses = 0\<rparr>" "[ascii ''s'', ascii ''a'']"
         "\<lparr>kanaText = [0x3055], rc_currentIndex = 1, currentInputBuffer = []\<rparr>"]
    by (simp add: isFinished_def)
qed




text \<open>
  C6 as stated fails for \<open>InputHandler\<close>: a unit without an entry in its table gets the
  placeholder spelling \<open>?\<close>, so the key \<open>?\<close> is accepted and moves the cursor past the
  unit. The kanji U+6F22 has no entry.
\<close>

theorem unknown_unit_counterexample:
  "KANA_ROMAJI_MAP [0x6F22] = None
   \<and> handleKey (setTarget newInputHandler [0x6F22]) (ascii ''?'')
     = (True, \<lparr>targetKana = [0x6F22], currentInput = [], currentIndex = 1,
               totalTyped = 1, totalMisses = 0\<rparr>)"
  by (simp add: ih_fun_defs KANA_ROMAJI_MAP_lookups string_eval)

text \<open>
  C6, amended. When the character at the cursor has no entry in the table:
  \<open>RomajiCore\<close> rejects every key, whatever the buffer, and no sequence of keys changes
  its state, so the cursor never moves past the unit; \<open>InputHandler\<close> accepts a
  single-character key exactly when it makes the buffer equal to the placeholder \<open>?\<close>,
  rejects every other key, and the accepted key moves the cursor forward.
\<close>

theorem unknown_unit_behaviour:
  "(\<not> isFinished r \<and> ROMAJI_TABLE [kanaText r ! rc_currentIndex r] = None
     \<longrightarrow> inputs r ks = (replicate (length ks) False, r))
   \<and> (currentIndex s < length (targetKana s)
      \<and> KANA_ROMAJI_MAP [targetKana s ! currentIndex s] = None \<and> length key = 1
     \<longrightarrow> fst (handleKey s key) = (currentInput s @ key = ascii ''?'')
        \<and> (currentInput s @ key = ascii ''?''
            \<longrightarrow> currentIndex s < currentIndex (snd (handleKey s key))))"
  by (simp add: inputs_unknown handleKey_unknown)

theorem unknown_unit_behaviour_witness:
  "inputs (newRomajiCore [0x6F22, 0x3042]) [ascii ''a'', ascii ''?'', ascii ''xtu'']
     = ([False, False, False], newRomajiCore [0x6F22, 0x3042])
   \<and> fst (handleKey (setTarget newInputHandler [0x6F22]) (ascii ''?''))
   \<and> \<not> fst (handleKey (setTarget newInputHandler [0x6F22]) (ascii ''a''))
   \<and> currentIndex (setTarget newInputHandler [0x6F22])
       < currentIndex (snd (handleKey (setTarget newInputHandler [0x6F22]) (ascii ''?'')))"
proof -
  let ?r = "newRomajiCore [0x6F22, 0x3042]"
  let ?s = "setTarget newInputHandler [0x6F22]"
  have r: "\<not> isFinished ?r" "ROMAJI_TABLE [kanaText ?r ! rc_currentIndex ?r] = None"
    by (simp_all add: isFinished_def newRomajiCore_def ROMAJI_TABLE_lookups)
  have s: "currentIndex ?s < length (targetKana ?s)"
    "KANA_ROMAJI_MAP [targetKana ?s ! currentIndex ?s] = None"
    "currentInput ?s = []"
    by (simp_all add: setTarget_def KANA_ROMAJI_MAP_lookups)
  have k: "length (ascii ''?'') = 1" "length (ascii ''a'') = 1" "ascii ''a'' \<noteq> ascii ''?''"
    by (simp_all add: ascii_def)
  from unknown_unit_behaviour [of ?r "[ascii ''a'', ascii ''?'', ascii ''xtu'']" ?s "ascii ''?''"]
    unknown_unit_behaviour [of ?r "[]" ?s "ascii ''a''"] r s k
  show ?thesis by simp
qed

text \<open>
  C7 as stated fails. In \<open>RomajiCore\<close> a unit without a table entry has no spelling at
  all, so the empty buffer of a new matcher on the kanji U+6F22 is a prefix of none. At
  the contracted unit U+3057 U+3083, whose spellings are sha and sya, the key c is
  accepted towards the spelling ci of the first character alone, and the buffer c is a
  prefix of no spelling of the unit. A key of several characters can leave any left-over
  in the buffer: after the key nz on U+3093 U+304B the buffer at U+304B is z. In
  \<open>InputHandler\<close> the table has no spelling for U+6F22 either; the handler gives the unit
  the placeholder \<open>?\<close>.
\<close>

theorem buffer_prefix_counterexample:
  "\<not> isFinished (newRomajiCore [0x6F22])
   \<and> currentInputBuffer (newRomajiCore [0x6F22]) = []
   \<and> getPossibleRomaji (hintUnitKey (drop (rc_currentIndex (newRomajiCore [0x6F22]))
        (kanaText (newRomajiCore [0x6F22])))) = []
   \<and> snd (input (newRomajiCore [0x3057, 0x3083]) (ascii ''c''))
     = \<lparr>kanaText = [0x3057, 0x3083], rc_currentIndex = 0, currentInputBuffer = ascii ''c''\<rparr>
   \<and> getPossibleRomaji (hintUnitKey [0x3057, 0x3083]) = [ascii ''sha'', ascii ''sya'']
   \<and> \<not> (\<exists>e\<in>set (getPossibleRomaji (hintUnitKey [0x3057, 0x3083])). prefix (ascii ''c'') e)
   \<and> snd (input (newRomajiCore [0x3093, 0x304B]) (ascii ''nz''))
     = \<lparr>kanaText = [0x3093, 0x304B], rc_currentIndex = 1, currentInputBuffer = ascii ''z''\<rparr>
   \<and> getPossibleRomaji (hintUnitKey [0x304B]) = [ascii ''ka'', ascii ''ca'']
   \<and> \<not> (\<exists>e\<in>set (getPossibleRomaji (hintUnitKey [0x304B])). prefix (ascii ''z'') e)
   \<and> KANA_ROMAJI_MAP [0x6F22] = None
   \<and> getPossibleRomajis (setTarget newInputHandler [0x6F22]) 0 = [ascii ''?'']"
proof -
  have a: "\<not> isFinished (newRomajiCore [0x6F22])"
    "currentInputBuffer (newRomajiCore [0x6F22]) = []"
    "getPossibleRomaji (hintUnitKey (drop (rc_currentIndex (newRomajiCore [0x6F22]))
        (kanaText (newRomajiCore [0x6F22])))) = []"
    by (simp_all add: isFinished_def newRomajiCore_def unit_spellings_evaluated)
  have b: "snd (input (newRomajiCore [0x3057, 0x3083]) (ascii ''c''))
     = \<lparr>kanaText = [0x3057, 0x3083], rc_currentIndex = 0, currentInputBuffer = ascii ''c''\<rparr>"
    by (simp add: rc_fun_defs ROMAJI_TABLE_lookups string_eval)
  have c: "snd (input (newRomajiCore [0x3093, 0x304B]) (ascii ''nz''))
     = \<lparr>kanaText = [0x3093, 0x304B], rc_currentIndex = 1, currentInputBuffer = ascii ''z''\<rparr>"
    by (simp add: rc_fun_defs ROMAJI_TABLE_lookups string_eval)
  have d: "\<not> (\<exists>e\<in>set (getPossibleRomaji (hintUnitKey [0x3057, 0x3083])).
               prefix (ascii ''c'') e)"
    "\<not> (\<exists>e\<in>set (getPossibleRomaji (hintUnitKey [0x304B])). prefix (ascii ''z'') e)"
    by (simp_all add: unit_spellings_evaluated ascii_def)
  have e: "getPossibleRomajis (setTarget newInputHandler [0x6F22]) 0 = [ascii ''?'']"
    by (simp add: ih_fun_defs KANA_ROMAJI_MAP_lookups SMALL_TSU_def)
  from a b c d e show ?thesis
    by (simp only: unit_spellings_evaluated KANA_ROMAJI_MAP_lookups simp_thms)
qed

text \<open>
  C7, amended. In every state reached from a new matcher by single-character keys, while
  a unit is current: in \<open>InputHandler\<close> (for keys of any length) the buffer is a prefix of
  at least one of the spellings that \<open>getPossibleRomajis\<close> gives the current unit, where a
  unit without a table entry has the placeholder spelling \<open>?\<close>; in \<open>RomajiCore\<close> the buffer
  is a prefix of at least one spelling of the current unit, or of a spelling of its first
  character alone (which differs when the unit is a two-character compound), or neither
  has a spelling and the buffer is empty.
\<close>

theorem buffer_prefix_invariant:
  "(s = snd (handleKeys (setTarget newInputHandler kana) ks)
      \<and> currentIndex s < length (targetKana s)
     \<longrightarrow> (\<exists>r\<in>set (getPossibleRomajis s (currentIndex s)). prefix (currentInput s) r))
   \<and> ((\<forall>k\<in>set ks'. length k = 1) \<and> r = snd (inputs (newRomajiCore kana') ks')
      \<and> \<not> isFinished r
     \<longrightarrow> (\<exists>e\<in>set (getPossibleRomaji (hintUnitKey (drop (rc_currentIndex r) (kanaText r)))).
             prefix (currentInputBuffer r) e)
         \<or> (\<exists>e\<in>set (getPossibleRomaji (take 1 (drop (rc_currentIndex r) (kanaText r)))).
             prefix (currentInputBuffer r) e)
         \<or> (getPossibleRomaji (hintUnitKey (drop (rc_currentIndex r) (kanaText r))) = []
            \<and> getPossibleRomaji (take 1 (drop (rc_currentIndex r) (kanaText r))) = []
            \<and> currentInputBuffer r = []))"
proof (intro conjI impI)
  assume a: "s = snd (handleKeys (setTarget newInputHandler kana) ks)
      \<and> currentIndex s < length (targetKana s)"
  then have s: "s = snd (handleKeys (setTarget newInputHandler kana) ks)"
    and nf: "currentIndex s < length (targetKana s)"
    by blast+
  have "ih_inv s"
    unfolding s by (rule ih_inv_handleKeys) (rule ih_inv_setTarget)
  with nf show "\<exists>r\<in>set (getPossibleRomajis s (currentIndex s)). prefix (currentInput s) r"
    by (simp add: ih_inv_def)
next
  assume a: "(\<forall>k\<in>set ks'. length k = 1) \<and> r = snd (inputs (newRomajiCore kana') ks')
      \<and> \<not> isFinished r"
  then have keys: "\<forall>k\<in>set ks'. length k = 1"
    and r: "r = snd (inputs (newRomajiCore kana') ks')"
    by blast+
  have "rc_inv r"
    unfolding r using rc_inv_new keys by (rule rc_inv_inputs)
  then show "(\<exists>e\<in>set (getPossibleRomaji (hintUnitKey (drop (rc_currentIndex r) (kanaText r)))).
             prefix (currentInputBuffer r) e)
         \<or> (\<exists>e\<in>set (getPossibleRomaji (take 1 (drop (rc_currentIndex r) (kanaText r)))).
             prefix (currentInputBuffer r) e)
         \<or> (getPossibleRomaji (hintUnitKey (drop (rc_currentIndex r) (kanaText r))) = []
            \<and> getPossibleRomaji (take 1 (drop (rc_currentIndex r) (kanaText r))) = []
            \<and> currentInputBuffer r = [])"
    unfolding rc_inv_def by (rule rc_inv_prefix)
qed

theorem buffer_prefix_invariant_witness:
  "snd (handleKeys (setTarget newInputHandler [0x3055]) [ascii ''s''])
     = \<lparr>targetKana = [0x3055], currentInput = ascii ''s'', currentIndex = 0,
        totalTyped = 1, totalMisses = 0\<rparr>
   \<and> (\<exists>r\<in>set (getPossibleRomajis \<lparr>targetKana = [0x3055], currentInput = ascii ''s'',
          currentIndex = 0, totalTyped = 1, totalMisses = 0\<rparr> 0). prefix (ascii ''s'') r)
   \<and> snd (inputs (newRomajiCore [0x3057, 0x3083]) [ascii ''s''])
     = \<lparr>kanaText = [0x3057, 0x3083], rc_currentIndex = 0, currentInputBuffer = ascii ''s''\<rparr>
   \<and> ((\<exists>e\<in>set (getPossibleRomaji (hintUnitKey [0x3057, 0x3083])). prefix (ascii ''s'') e)
      \<or> (\<exists>e\<in>set (getPossibleRomaji [0x3057]). prefix (ascii ''s'') e)
      \<or> (getPossibleRomaji (hintUnitKey [0x3057, 0x3083]) = []
          \<and> getPossibleRomaji [0x3057] = [] \<and> ascii ''s'' = []))
   \<and> prefix (ascii ''s'') (ascii ''sha'')"
proof -
  let ?s = "\<lparr>targetKana = [0x3055], currentInput = ascii ''s'', currentIndex = 0,
        totalTyped = 1, totalMisses = 0\<rparr>"
  let ?r = "\<lparr>kanaText = [0x3057, 0x3083], rc_currentIndex = 0,
        currentInputBuffer = ascii ''s''\<rparr>"
  have s: "snd (handleKeys (setTarget newInputHandler [0x3055]) [ascii ''s'']) = ?s"
    by (simp only: run_s_ih snd_conv)
  have r: "snd (inputs (newRomajiCore [0x3057, 0x3083]) [ascii ''s'']) = ?r"
    by (simp only: run_s_compound snd_conv)
  have keys: "\<forall>k\<in>set [ascii ''s'']. length k = 1"
    by (simp add: ascii_def)
  have nf: "currentIndex ?s < length (targetKana ?s)" "\<not> isFinished ?r"
    by (simp_all add: isFinished_def)
  have pre: "prefix (ascii ''s'') (ascii ''sha'')"
    by (simp add: ascii_def)
  note inst = buffer_prefix_invariant
    [of "snd (handleKeys (setTarget newInputHandler [0x3055]) [ascii ''s''])" "[0x3055]"
      "[ascii ''s'']" "[ascii ''s'']"
      "snd (inputs (newRomajiCore [0x3057, 0x3083]) [ascii ''s''])"
      "[0x3057, 0x3083]", unfolded s r]
  from inst keys nf
  have "\<exists>r\<in>set (getPossibleRomajis ?s 0). prefix (ascii ''s'') r"
    and "(\<exists>e\<in>set (getPossibleRomaji (hintUnitKey [0x3057, 0x3083])). prefix (ascii ''s'') e)
      \<or> (\<exists>e\<in>set (getPossibleRomaji [0x3057]). prefix (ascii ''s'') e)
      \<or> (getPossibleRomaji (hintUnitKey [0x3057, 0x3083]) = []
          \<and> getPossibleRomaji [0x3057] = [] \<and> ascii ''s'' = [])"
    by simp_all
  with pre show ?thesis
    unfolding s r by simp
qed

text \<open>
  C8 as stated fails: \<open>getNextExpectedRomaji\<close> does not strip the typed characters. On the
  target U+3055, whose only spelling is sa, after the key s the buffer is s and the hint
  is still sa, not a.
\<close>

theorem hint_counterexample:
  "snd (input (newRomajiCore [0x3055]) (ascii ''s''))
     = \<lparr>kanaText = [0x3055], rc_currentIndex = 0, currentInputBuffer = ascii ''s''\<rparr>
   \<and> ROMAJI_TABLE [0x3055] = Some [ascii ''sa'']
   \<and> getNextExpectedRomaji (snd (input (newRomajiCore [0x3055]) (ascii ''s'')))
     = Some (ascii ''sa'')
   \<and> getNextExpectedRomaji (snd (input (newRomajiCore [0x3055]) (ascii ''s'')))
     \<noteq> Some (drop (length (currentInputBuffer
           (snd (input (newRomajiCore [0x3055]) (ascii ''s''))))) (ascii ''sa''))"
proof -
  have run: "snd (input (newRomajiCore [0x3055]) (ascii ''s''))
     = \<lparr>kanaText = [0x3055], rc_currentIndex = 0, currentInputBuffer = ascii ''s''\<rparr>"
    by (simp add: rc_fun_defs ROMAJI_TABLE_lookups string_eval)
  have hint: "getNextExpectedRomaji
       \<lparr>kanaText = [0x3055], rc_currentIndex = 0, currentInputBuffer = ascii ''s''\<rparr>
     = Some (ascii ''sa'')"
    by (simp add: getNextExpectedRomaji_def isFinished_def ROMAJI_TABLE_lookups first_of_def
        startsWith_def SMALL_TSU_def)
  show ?thesis
    unfolding run hint by (simp add: ROMAJI_TABLE_lookups ascii_def)
qed

text \<open>
  C8, amended. The hint does not depend on the buffer, and for a plain or contracted unit
  with a table entry it is the whole canonical (first) spelling of the unit, whatever has
  been typed; it is recomputed from the cursor on every call.
\<close>

theorem hint_is_whole_spelling:
  "getNextExpectedRomaji (s\<lparr>currentInputBuffer := b\<rparr>) = getNextExpectedRomaji s
   \<and> (\<not> isFinished s
      \<and> take 1 (drop (rc_currentIndex s) (kanaText s)) \<noteq> [SMALL_TSU]
      \<and> ROMAJI_TABLE (hintUnitKey (drop (rc_currentIndex s) (kanaText s))) = Some (r # rs)
     \<longrightarrow> getNextExpectedRomaji (s\<lparr>currentInputBuffer := b\<rparr>) = Some r)"
  by (simp add: hint_ignores_buffer hint_canonical)

theorem hint_is_whole_spelling_witness:
  "getNextExpectedRomaji
     \<lparr>kanaText = [0x3055], rc_currentIndex = 0, currentInputBuffer = ascii ''s''\<rparr>
     = Some (ascii ''sa'')
   \<and> getNextExpectedRomaji (newRomajiCore [0x3055]) = Some (ascii ''sa'')"
proof -
  let ?s = "newRomajiCore [0x3055]"
  have upd: "?s\<lparr>currentInputBuffer := ascii ''s''\<rparr>
      = \<lparr>kanaText = [0x3055], rc_currentIndex = 0, currentInputBuffer = ascii ''s''\<rparr>"
    "?s\<lparr>currentInputBuffer := []\<rparr> = ?s"
    by (simp_all add: newRomajiCore_def)
  have h: "\<not> isFinished ?s"
    "take 1 (drop (rc_currentIndex ?s) (kanaText ?s)) \<noteq> [SMALL_TSU]"
    "ROMAJI_TABLE (hintUnitKey (drop (rc_currentIndex ?s) (kanaText ?s))) = Some [ascii ''sa'']"
    by (simp_all add: isFinished_def newRomajiCore_def SMALL_TSU_def hintUnitKey_def
        ROMAJI_TABLE_lookups)
  from hint_is_whole_spelling [where s = ?s and b = "ascii ''s''" and r = "ascii ''sa''" and rs = "[]"]
    hint_is_whole_spelling [where s = ?s and b = "[]" and r = "ascii ''sa''" and rs = "[]"] h upd
  show ?thesis by simp
qed

text \<open>
  C9. \<open>setTarget\<close> on an existing handler resets the cursor to 0 and clears the buffer, and
  leaves \<open>totalTyped\<close> and \<open>totalMisses\<close> as they were: \<open>getStats\<close> reports the same counts
  before and after, so the counts carry over from one target to the next.
\<close>

theorem setTarget_keeps_counters:
  "currentIndex (setTarget s kana) = 0
   \<and> currentInput (setTarget s kana) = []
   \<and> targetKana (setTarget s kana) = kana
   \<and> totalTyped (setTarget s kana) = totalTyped s
   \<and> totalMisses (setTarget s kana) = totalMisses s
   \<and> getStats (setTarget s kana) = getStats s"
  by (simp add: setTarget_def getStats_def)

text \<open>
  C10. For every key whose length is not exactly 1, \<open>handleKey\<close> returns false and leaves
  the whole state unchanged, the two counters included, finished or not.
\<close>

theorem handleKey_ignores_non_char_keys:
  "length key \<noteq> 1 \<Longrightarrow> handleKey s key = (False, s)"
  by (simp add: handleKey_def)

theorem handleKey_ignores_non_char_keys_witness:
  "currentIndex (setTarget newInputHandler [0x3055])
     < length (targetKana (setTarget newInputHandler [0x3055]))
   \<and> length (ascii ''sa'') = 2
   \<and> handleKey (setTarget newInputHandler [0x3055]) (ascii ''sa'')
       = (False, setTarget newInputHandler [0x3055])
   \<and> handleKey (setTarget newInputHandler [0x3055]) [] = (False, setTarget newInputHandler [0x3055])"
proof -
  have "length (ascii ''sa'') \<noteq> 1" and "length ([] :: jsstring) \<noteq> 1"
    by (simp_all add: ascii_def)
  then show ?thesis
    using handleKey_ignores_non_char_keys [of "ascii ''sa''" "setTarget newInputHandler [0x3055]"]
      handleKey_ignores_non_char_keys [of "[]" "setTarget newInputHandler [0x3055]"]
    by (simp add: setTarget_def newInputHandler_def ascii_def)
qed

end
